theory Spec2Isabelle
  imports Complex_Main
begin

section \<open>JavaScript numbers\<close>

text \<open>
  Numbers of the TypeScript sources are modelled as reals (\<open>NaN\<close> and rounding of
  doubles are outside the model); the \<open>hours\<close> window and timestamps (milliseconds)
  are integers.  \<open>Math.random()\<close> is a sequence \<open>rnd\<close> of draws read through a
  counter that every call advances.
\<close>

definition jsRound :: "real \<Rightarrow> real" where
  \<comment> \<open>\<open>Math.round\<close>: the nearest integer, ties towards plus infinity.\<close>
  "jsRound x = of_int \<lfloor>x + 1 / 2\<rfloor>"

definition jsTrunc :: "real \<Rightarrow> int" where
  "jsTrunc y = (if 0 \<le> y then \<lfloor>y\<rfloor> else \<lceil>y\<rceil>)"

definition jsRem :: "real \<Rightarrow> real \<Rightarrow> real" where
  \<comment> \<open>The operator \<open>%\<close>: the remainder has the sign of the dividend.\<close>
  "jsRem x m = x - m * of_int (jsTrunc (x / m))"

definition jsOr :: "real \<Rightarrow> real \<Rightarrow> real" where
  \<comment> \<open>\<open>x || d\<close> on a number: 0 is falsy.\<close>
  "jsOr x d = (if x = 0 then d else x)"

definition jsOrNull :: "real option \<Rightarrow> real \<Rightarrow> real" where
  \<comment> \<open>\<open>v || d\<close> on a number that may be null or undefined.\<close>
  "jsOrNull v d = (case v of None \<Rightarrow> d | Some x \<Rightarrow> jsOr x d)"

definition mathRandom :: "(nat \<Rightarrow> real) \<Rightarrow> nat \<Rightarrow> real \<times> nat" where
  "mathRandom draws n = (draws n, Suc n)"

datatype JsError = Error string | TypeError string | RangeError string

fun message :: "JsError \<Rightarrow> string" where
  "message (Error m) = m"
| "message (TypeError m) = m"
| "message (RangeError m) = m"

definition validTime :: "int \<Rightarrow> bool" where
  \<comment> \<open>The time values of a \<open>Date\<close>: beyond them the date is invalid and
      \<open>toISOString()\<close> raises a RangeError.\<close>
  "validTime t = (- 8640000000000000 \<le> t \<and> t \<le> 8640000000000000)"

definition andThen ::
  "('e + 'a) \<times> nat \<Rightarrow> ('a \<Rightarrow> nat \<Rightarrow> ('e + 'b) \<times> nat) \<Rightarrow> ('e + 'b) \<times> nat" where
  \<comment> \<open>Sequencing of statements that may throw, the draw counter threaded: an error
      ends the block.\<close>
  "andThen m f = (case m of (Inl e, n) \<Rightarrow> (Inl e, n) | (Inr x, n) \<Rightarrow> f x n)"

definition getHours :: "int \<Rightarrow> int" where
  \<comment> \<open>Hour of the day of a time in milliseconds (local time).\<close>
  "getHours t = (t div 3600000) mod 24"

section \<open>The sensor data generator (lib/sensor-data-generator)\<close>

datatype Quality = Excellent | Good | Moderate | Poor | Hazardous

record SensorReading =
  smallDustParticles :: real
  largeParticles :: real
  humidity :: real
  temperature :: real
  timestamp :: int
  quality :: Quality

text \<open>
  What a call reads from its environment: the clock (\<open>Date.now()\<close>, taken constant
  during one call), the month of \<open>new Date().getMonth()\<close> and the draws of
  \<open>Math.random()\<close>.
\<close>

record GenEnv =
  dateNow :: int
  month :: int
  rnd :: "nat \<Rightarrow> real"

definition baseTemperature :: real where "baseTemperature = 22"
definition baseHumidity :: real where "baseHumidity = 60"
definition baseSmallDust :: real where "baseSmallDust = 15"
definition baseLargeDust :: real where "baseLargeDust = 10"

definition getTimeOfDayFactor :: "int \<Rightarrow> real" where
  "getTimeOfDayFactor hour = sin (((of_int hour - 6) * pi) / 12) * 0.3"

definition getSeasonalFactor :: "GenEnv \<Rightarrow> real" where
  "getSeasonalFactor env = sin (((of_int (month env) - 3) * pi) / 6) * 0.2"

definition getWeatherInfluence :: "GenEnv \<Rightarrow> nat \<Rightarrow> real \<times> nat" where
  "getWeatherInfluence env n =
     (let (r, n1) = mathRandom (rnd env) n in ((r - 0.5) * 0.4, n1))"

definition getDustAccumulation :: "GenEnv \<Rightarrow> int \<Rightarrow> nat \<Rightarrow> real \<times> nat" where
  "getDustAccumulation env hoursAgo n =
     (let daysSinceLastClean = jsRem (of_int hoursAgo / 24) 7;
          accumulation = min (daysSinceLastClean * 3) 25;
          (r, n1) = mathRandom (rnd env) n;
          randomVariation = (r - 0.5) * 5
      in (max 5 (baseSmallDust + accumulation + randomVariation), n1))"

definition qualityScore :: "real \<Rightarrow> real \<Rightarrow> real \<Rightarrow> int" where
  \<comment> \<open>The variable \<open>score\<close> of \<open>determineQuality\<close> after its seven updates.\<close>
  "qualityScore temp hum smallDust =
     (let score = 100;
          score = (if temp < 18 \<or> temp > 24 then score - 20 else score);
          score = (if temp < 15 \<or> temp > 28 then score - 30 else score);
          score = (if hum < 50 \<or> hum > 65 then score - 15 else score);
          score = (if hum < 40 \<or> hum > 75 then score - 25 else score);
          score = (if smallDust > 20 then score - 15 else score);
          score = (if smallDust > 35 then score - 25 else score);
          score = (if smallDust > 50 then score - 40 else score)
      in score)"

definition determineQuality :: "real \<Rightarrow> real \<Rightarrow> real \<Rightarrow> Quality" where
  "determineQuality temp hum smallDust =
     (let score = qualityScore temp hum smallDust in
      if score \<ge> 85 then Excellent
      else if score \<ge> 70 then Good
      else if score \<ge> 50 then Moderate
      else if score \<ge> 30 then Poor
      else Hazardous)"

definition makeReading :: "GenEnv \<Rightarrow> int \<Rightarrow> nat \<Rightarrow> SensorReading \<times> nat" where
  \<comment> \<open>The body of \<open>generateReading\<close> up to its object literal, the timestamp still a
      time value.\<close>
  "makeReading env hoursAgo n =
     (let ts = dateNow env - hoursAgo * 3600000;
          hour = getHours ts;
          timeOfDayEffect = getTimeOfDayFactor hour * 3;
          seasonalEffect = getSeasonalFactor env * 2;
          (w, n1) = getWeatherInfluence env n;
          weatherEffect = w * 2;
          (r2, n2) = mathRandom (rnd env) n1;
          randomVariation = (r2 - 0.5) * 1.5;
          temp = jsRound ((baseTemperature + timeOfDayEffect + seasonalEffect
                   + weatherEffect + randomVariation) * 10) / 10;
          (r3, n3) = mathRandom (rnd env) n2;
          humidityVariation = (r3 - 0.5) * 15;
          temperatureInfluence = (temp - baseTemperature) * (- 0.8);
          hum = jsRound (max 35 (min 85 (baseHumidity + humidityVariation + temperatureInfluence)));
          (d, n4) = getDustAccumulation env hoursAgo n3;
          small = jsRound (d * 10) / 10;
          (r5, n5) = mathRandom (rnd env) n4;
          large = jsRound ((small * 0.6 + (r5 - 0.5) * 3) * 10) / 10
      in (\<lparr> smallDustParticles = small, largeParticles = large, humidity = hum,
            temperature = temp, timestamp = ts,
            quality = determineQuality temp hum small \<rparr>, n5))"

definition generateReading ::
  "GenEnv \<Rightarrow> int \<Rightarrow> nat \<Rightarrow> (JsError + SensorReading) \<times> nat" where
  \<comment> \<open>\<open>timestamp.toISOString()\<close> in the object literal raises on an invalid date: then
      no reading is returned (the draws have been made).\<close>
  "generateReading env hoursAgo n =
     (case makeReading env hoursAgo n of
        (r, n') \<Rightarrow>
          if validTime (timestamp r) then (Inr r, n')
          else (Inl (RangeError ''Invalid time value''), n'))"

function historyLoop ::
  "GenEnv \<Rightarrow> int \<Rightarrow> nat \<Rightarrow> SensorReading list
     \<Rightarrow> (JsError + SensorReading list) \<times> nat" where
  "historyLoop env i n readings =
     (if i \<ge> 0
      then (case generateReading env i n of
              (Inl e, n') \<Rightarrow> (Inl e, n')
            | (Inr r, n') \<Rightarrow> historyLoop env (i - 1) n' (readings @ [r]))
      else (Inr readings, n))"
  by pat_completeness auto
termination
  by (relation "measure (\<lambda>(env, i, n, readings). nat (i + 1))") auto

declare historyLoop.simps [simp del]

definition generateHistoricalData ::
  "GenEnv \<Rightarrow> int \<Rightarrow> nat \<Rightarrow> (JsError + SensorReading list) \<times> nat" where
  "generateHistoricalData env hours n = historyLoop env (hours - 1) n []"

text \<open>The clamp bounds of the specification, on the four measurements.\<close>

definition inBounds :: "real \<Rightarrow> real \<Rightarrow> real \<Rightarrow> real \<Rightarrow> bool" where
  "inBounds temp hum small large =
     (15 \<le> temp \<and> temp \<le> 30 \<and> 35 \<le> hum \<and> hum \<le> 85 \<and>
      0 \<le> small \<and> small \<le> 60 \<and> 0 \<le> large \<and> large \<le> 40)"

definition readingInBounds :: "SensorReading \<Rightarrow> bool" where
  "readingInBounds r =
     inBounds (temperature r) (humidity r) (smallDustParticles r) (largeParticles r)"

definition unitDraws :: "(nat \<Rightarrow> real) \<Rightarrow> bool" where
  \<comment> \<open>Every draw of \<open>Math.random()\<close> lies in the half-open unit interval.\<close>
  "unitDraws f = (\<forall>k. 0 \<le> f k \<and> f k < 1)"

section \<open>The sensor-data route (GET /api/sensor-data)\<close>

text \<open>
  What the route receives from its two sources.  The body of the primary source may
  lack a feed list (\<open>PrimaryOk None\<close>), carry an array whose entries are feeds or
  null (\<open>FeedArray\<close>), or carry a value that is not an array, with the number its
  \<open>length\<close> property compares as (\<open>FeedOther\<close>).  A feed carries the result of
  \<open>feed.fieldN ? Number.parseFloat(feed.fieldN) : null\<close> for each field.  The
  secondary source is the result of the Supabase query, \<open>data\<close> possibly null.
  Channel information, the field-mapping labels, the time-range label and the formatted
  time of a chart point are left out of the records.
\<close>

record Feed =
  feed_field1 :: "real option"
  feed_field2 :: "real option"
  feed_field4 :: "real option"
  feed_field5 :: "real option"
  feed_field6 :: "real option"
  feed_field7 :: "real option"
  feed_field8 :: "real option"
  feed_created_at :: int

record DbReading =
  entry_id :: int
  field1 :: "real option"
  field2 :: "real option"
  field3 :: "real option"
  field4 :: "real option"
  field5 :: "real option"
  field6 :: "real option"
  field7 :: "real option"
  field8 :: "real option"
  created_at :: int

datatype Feeds = FeedArray "Feed option list" | FeedOther nat

datatype Primary = PrimaryThrows | PrimaryNotOk | PrimaryOk "Feeds option"

datatype Secondary = SecondaryThrows | SecondaryData "DbReading list option"

record CurrentValues =
  cv_temperature :: real
  cv_humidity :: real
  cv_smallDustParticles :: real
  cv_largeParticles :: real
  cv_field3 :: real
  cv_field6 :: real
  cv_field7 :: real
  cv_field8 :: real

record ChartPoint =
  pt_temperature :: real
  pt_humidity :: real
  pt_smallDust :: real
  pt_largeParticles :: real
  pt_timestamp :: int

record QualityMetrics =
  temperatureStatus :: string
  humidityStatus :: string
  smallDustStatus :: string
  largeParticlesStatus :: string
  overallQuality :: Quality

record SensorData =
  currentValues :: CurrentValues
  chartData :: "ChartPoint list"
  readings :: "DbReading list"
  totalReadings :: nat
  lastUpdated :: int
  isMockData :: bool
  qualityMetrics :: QualityMetrics

datatype DataSource = Thingspeak | NoSource | Generated

record ApiResult =
  success :: bool
  sensorData :: SensorData
  dataSource :: DataSource
  errorText :: "string option"
  details :: "string option"

definition feedToReading :: "nat \<Rightarrow> Feed \<Rightarrow> DbReading" where
  "feedToReading index feed =
     \<lparr> entry_id = 1000000 + int index,
       field1 = feed_field1 feed, field2 = feed_field2 feed, field3 = None,
       field4 = feed_field4 feed, field5 = feed_field5 feed, field6 = feed_field6 feed,
       field7 = feed_field7 feed, field8 = feed_field8 feed,
       created_at = feed_created_at feed \<rparr>"

definition mockToReading :: "nat \<Rightarrow> SensorReading \<Rightarrow> DbReading" where
  "mockToReading index reading =
     \<lparr> entry_id = 1000000 + int index,
       field1 = Some (smallDustParticles reading), field2 = Some (largeParticles reading),
       field3 = None,
       field4 = Some (humidity reading), field5 = Some (temperature reading),
       field6 = None, field7 = None, field8 = None,
       created_at = timestamp reading \<rparr>"

definition latestField :: "DbReading list \<Rightarrow> (DbReading \<Rightarrow> real option) \<Rightarrow> real option" where
  \<comment> \<open>\<open>latestReading?.fieldN\<close> with \<open>latestReading = readings[0]\<close>.\<close>
  "latestField rs fld = (case rs of [] \<Rightarrow> None | r # _ \<Rightarrow> fld r)"

definition hasRealData :: "Primary \<Rightarrow> bool" where
  \<comment> \<open>\<open>thingspeakData?.feeds?.length > 0\<close>, set only after a response that is ok.\<close>
  "hasRealData primary =
     (case primary of
        PrimaryOk (Some (FeedArray fs)) \<Rightarrow> fs \<noteq> []
      | PrimaryOk (Some (FeedOther len)) \<Rightarrow> len > 0
      | _ \<Rightarrow> False)"

definition mapFeeds :: "Primary \<Rightarrow> JsError + DbReading list" where
  \<comment> \<open>\<open>thingspeakData.feeds.map(...)\<close>: reading a field of a null entry raises, and
      so does \<open>map\<close> on a value that is not an array.\<close>
  "mapFeeds primary =
     (case primary of
        PrimaryOk (Some (FeedArray fs)) \<Rightarrow>
          (case those fs of
             None \<Rightarrow> Inl (TypeError ''Cannot read properties of null'')
           | Some feeds \<Rightarrow>
               Inr (map (\<lambda>(index, feed). feedToReading index feed) (enumerate 0 feeds)))
      | PrimaryOk (Some (FeedOther len)) \<Rightarrow>
          Inl (TypeError ''thingspeakData.feeds.map is not a function'')
      | _ \<Rightarrow> Inl (TypeError ''Cannot read properties of null''))"

definition orGenerated ::
  "GenEnv \<Rightarrow> real option \<Rightarrow> (SensorReading \<Rightarrow> real) \<Rightarrow> nat \<Rightarrow> (JsError + real) \<times> nat" where
  \<comment> \<open>\<open>v || sensorGenerator.generateReading(0).sel\<close>: the reading is generated only
      when \<open>v\<close> is falsy.\<close>
  "orGenerated env v sel n =
     (case v of
        None \<Rightarrow> andThen (generateReading env 0 n) (\<lambda>r n'. (Inr (sel r), n'))
      | Some x \<Rightarrow>
          if x = 0 then andThen (generateReading env 0 n) (\<lambda>r n'. (Inr (sel r), n'))
          else (Inr x, n))"

definition toChartPoint :: "DbReading \<Rightarrow> ChartPoint" where
  "toChartPoint reading =
     \<lparr> pt_temperature = jsOrNull (field5 reading) 0,
       pt_humidity = jsOrNull (field4 reading) 0,
       pt_smallDust = jsOrNull (field1 reading) 0,
       pt_largeParticles = jsOrNull (field2 reading) 0,
       pt_timestamp = created_at reading \<rparr>"

definition routeQualityMetrics :: "CurrentValues \<Rightarrow> QualityMetrics" where
  "routeQualityMetrics cv =
     \<lparr> temperatureStatus =
         (if cv_temperature cv \<ge> 18 \<and> cv_temperature cv \<le> 24 then ''optimal''
          else if cv_temperature cv \<ge> 15 \<and> cv_temperature cv \<le> 28 then ''acceptable''
          else ''critical''),
       humidityStatus =
         (if cv_humidity cv \<ge> 50 \<and> cv_humidity cv \<le> 65 then ''optimal''
          else if cv_humidity cv \<ge> 40 \<and> cv_humidity cv \<le> 75 then ''acceptable''
          else ''critical''),
       smallDustStatus =
         (if cv_smallDustParticles cv \<le> 20 then ''good''
          else if cv_smallDustParticles cv \<le> 35 then ''moderate''
          else if cv_smallDustParticles cv \<le> 50 then ''poor''
          else ''hazardous''),
       largeParticlesStatus =
         (if cv_largeParticles cv \<le> 15 then ''good''
          else if cv_largeParticles cv \<le> 25 then ''moderate''
          else if cv_largeParticles cv \<le> 35 then ''poor''
          else ''hazardous''),
       overallQuality =
         determineQuality (cv_temperature cv) (cv_humidity cv) (cv_smallDustParticles cv) \<rparr>"

definition routeReadings ::
  "GenEnv \<Rightarrow> int \<Rightarrow> Primary \<Rightarrow> Secondary \<Rightarrow> (JsError + DbReading list) \<times> nat" where
  \<comment> \<open>The variable \<open>readings\<close> of the route after its three sources.  The query of
      the secondary source sits in a \<open>try\<close> and is lost when \<open>startTime\<close> is an
      invalid date; the feed mapping and the generator sit in none.\<close>
  "routeReadings env hours primary secondary =
     (let startTime = dateNow env - hours * 3600000;
          rs0 = (if validTime startTime
                 then (case secondary of SecondaryData (Some rs) \<Rightarrow> rs | _ \<Rightarrow> [])
                 else [])
      in andThen (if rs0 = [] \<and> hasRealData primary then (mapFeeds primary, 0) else (Inr rs0, 0))
           (\<lambda>rs1 n.
              if rs1 = []
              then andThen (generateHistoricalData env hours n)
                     (\<lambda>mockReadings n'.
                        (Inr (map (\<lambda>(index, reading). mockToReading index reading)
                                (enumerate 0 mockReadings)), n'))
              else (Inr rs1, n)))"

definition routeResponse ::
  "GenEnv \<Rightarrow> bool \<Rightarrow> DbReading list \<Rightarrow> nat \<Rightarrow> (JsError + ApiResult) \<times> nat" where
  \<comment> \<open>The rest of the \<open>try\<close> block: current values, chart, quality and the
      response.\<close>
  "routeResponse env realData rs n0 =
     andThen (orGenerated env (latestField rs field1) smallDustParticles n0) (\<lambda>small n1.
     andThen (orGenerated env (latestField rs field2) largeParticles n1) (\<lambda>large n2.
     andThen (orGenerated env (latestField rs field4) humidity n2) (\<lambda>hum n3.
     andThen (orGenerated env (latestField rs field5) temperature n3) (\<lambda>temp n4.
       (let cv = \<lparr> cv_temperature = temp, cv_humidity = hum,
                    cv_smallDustParticles = small, cv_largeParticles = large,
                    cv_field3 = jsOrNull (latestField rs field3) 0,
                    cv_field6 = jsOrNull (latestField rs field6) 0,
                    cv_field7 = jsOrNull (latestField rs field7) 0,
                    cv_field8 = jsOrNull (latestField rs field8) 0 \<rparr>
        in (Inr \<lparr> success = True,
                  sensorData =
                    \<lparr> currentValues = cv,
                      chartData = map toChartPoint (rev rs),
                      readings = rs,
                      totalReadings = length rs,
                      lastUpdated = (case rs of [] \<Rightarrow> dateNow env | r # _ \<Rightarrow> created_at r),
                      isMockData = (\<not> realData \<and> length rs > 0),
                      qualityMetrics = routeQualityMetrics cv \<rparr>,
                  dataSource = (if realData then Thingspeak
                                else if length rs = 0 then NoSource else Generated),
                  errorText = None, details = None \<rparr>, n4))))))"

definition GET_catch :: "GenEnv \<Rightarrow> JsError \<Rightarrow> nat \<Rightarrow> (JsError + ApiResult) \<times> nat" where
  \<comment> \<open>The outer \<open>catch\<close>: 24 generated readings, whatever the window was.\<close>
  "GET_catch env err n =
     andThen (generateHistoricalData env 24 n) (\<lambda>mockReadings n'.
       (case rev mockReadings of
          [] \<Rightarrow> (Inl (TypeError ''Cannot read properties of undefined''), n')
        | latestReading # _ \<Rightarrow>
            (Inr \<lparr> success = False,
                   sensorData =
                     \<lparr> currentValues =
                         \<lparr> cv_temperature = temperature latestReading,
                           cv_humidity = humidity latestReading,
                           cv_smallDustParticles = smallDustParticles latestReading,
                           cv_largeParticles = largeParticles latestReading,
                           cv_field3 = 0, cv_field6 = 0, cv_field7 = 0, cv_field8 = 0 \<rparr>,
                       chartData =
                         map (\<lambda>reading.
                                \<lparr> pt_temperature = temperature reading,
                                  pt_humidity = humidity reading,
                                  pt_smallDust = smallDustParticles reading,
                                  pt_largeParticles = largeParticles reading,
                                  pt_timestamp = timestamp reading \<rparr>) mockReadings,
                       readings = [],
                       totalReadings = length mockReadings,
                       lastUpdated = timestamp latestReading,
                       isMockData = True,
                       qualityMetrics =
                         \<lparr> temperatureStatus = ''optimal'', humidityStatus = ''optimal'',
                           smallDustStatus = ''good'', largeParticlesStatus = ''good'',
                           overallQuality = quality latestReading \<rparr> \<rparr>,
                   dataSource = Generated,
                   errorText = Some ''Failed to fetch sensor data, using generated data'',
                   details = Some (message err) \<rparr>, n')))"

definition GET :: "GenEnv \<Rightarrow> int \<Rightarrow> int \<Rightarrow> Primary \<Rightarrow> Secondary \<Rightarrow> JsError + ApiResult" where
  \<comment> \<open>\<open>limit\<close> only travels to the two sources; the generated fallback ignores it.
      \<open>Inl\<close> is a rejection of the handler (an error raised inside its \<open>catch\<close>).\<close>
  "GET env limit hours primary secondary =
     fst (case andThen (routeReadings env hours primary secondary)
                 (routeResponse env (hasRealData primary)) of
            (Inl err, n) \<Rightarrow> GET_catch env err n
          | (Inr response, n) \<Rightarrow> (Inr response, n))"





section \<open>The sensor-data hook (hooks/use-sensor-data)\<close>

text \<open>
  The React state of \<open>useSensorData\<close> is a record; every \<open>setX\<close> is an update of
  it, applied in program order.  An asynchronous function returns its settled promise
  (\<open>Inl\<close> a rejection, \<open>Inr\<close> a fulfilment) together with the state it leaves.  What
  the network answers is an input of the call: \<open>FetchThrows\<close> is a rejected
  \<open>fetch\<close> or \<open>response.json()\<close> (network failure, abort, malformed or null body)
  with the message of the error, \<open>FetchStatus\<close> a response that is not ok.  The clock
  of the hook is taken to lie more than 48 hours inside the range of valid dates, where
  the timestamps of \<open>generateMockData\<close> are valid dates.
\<close>

record HookState =
  data :: "SensorData option"
  loading :: bool
  error :: "string option"
  lastSync :: "int option"
  isUsingMockData :: bool
  syncInterval :: nat
  consecutiveErrors :: nat

definition initialState :: HookState where
  "initialState =
     \<lparr> data = None, loading = True, error = None, lastSync = None,
       isUsingMockData = False, syncInterval = 30, consecutiveErrors = 0 \<rparr>"

datatype FetchOutcome = FetchThrows string | FetchStatus nat | FetchBody ApiResult

definition httpAnswer :: "JsError + ApiResult \<Rightarrow> FetchOutcome" where
  \<comment> \<open>What the hook's \<open>fetch\<close> receives from the route: its JSON response, or the
      status 500 of a handler that rejected.\<close>
  "httpAnswer answer = (case answer of Inl e \<Rightarrow> FetchStatus 500 | Inr response \<Rightarrow> FetchBody response)"

record SyncResult =
  sync_success :: bool
  sync_message :: "string option"
  sync_error :: "string option"

datatype SyncOutcome = SyncThrows string | SyncBody SyncResult

definition digit :: "nat \<Rightarrow> char" where
  \<comment> \<open>The decimal digit of a number below ten.\<close>
  "digit n = ''0123456789'' ! n"

fun showNat :: "nat \<Rightarrow> string" where
  "showNat n = (if n < 10 then [digit n] else showNat (n div 10) @ [digit (n mod 10)])"

definition clampPoint :: "ChartPoint \<Rightarrow> ChartPoint" where
  "clampPoint point =
     point\<lparr> pt_temperature := max 15 (min 30 (jsOr (pt_temperature point) 22)),
            pt_humidity := max 35 (min 85 (jsOr (pt_humidity point) 60)),
            pt_smallDust := max 0 (min 60 (jsOr (pt_smallDust point) 15)),
            pt_largeParticles := max 0 (min 40 (jsOr (pt_largeParticles point) 10)) \<rparr>"

definition mockPoint :: "GenEnv \<Rightarrow> nat \<Rightarrow> nat \<Rightarrow> ChartPoint \<times> nat" where
  \<comment> \<open>The callback of \<open>Array.from\<close> in \<open>generateMockData\<close>, at index \<open>i\<close>.\<close>
  "mockPoint env i n =
     (let time = dateNow env - int i * 3600000;
          hourOfDay = getHours time;
          dayFactor = sin ((of_int hourOfDay / 24) * pi * 2);
          (r1, n1) = mathRandom (rnd env) n;
          temp = 22 + dayFactor * 2 + (r1 - 0.5) * 2;
          (r2, n2) = mathRandom (rnd env) n1;
          hum = 60 - dayFactor * 5 + (r2 - 0.5) * 5;
          (r3, n3) = mathRandom (rnd env) n2;
          small = 15 + (of_int hourOfDay / 24) * 10 + (r3 - 0.5) * 5;
          (r4, n4) = mathRandom (rnd env) n3;
          large = small * 0.6 + (r4 - 0.5) * 3
      in (\<lparr> pt_temperature = max 15 (min 30 temp),
            pt_humidity = max 35 (min 85 hum),
            pt_smallDust = max 0 (min 60 small),
            pt_largeParticles = max 0 (min 40 large),
            pt_timestamp = time \<rparr>, n4))"

fun arrayFrom :: "(nat \<Rightarrow> nat \<Rightarrow> 'a \<times> nat) \<Rightarrow> nat list \<Rightarrow> nat \<Rightarrow> 'a list \<times> nat" where
  \<comment> \<open>The callback applied to the indices in order, the draw counter threaded.\<close>
  "arrayFrom f [] n = ([], n)"
| "arrayFrom f (i # is) n =
     (case f i n of (x, n') \<Rightarrow>
        (case arrayFrom f is n' of (xs, n'') \<Rightarrow> (x # xs, n'')))"

definition mockChart :: "GenEnv \<Rightarrow> int \<Rightarrow> ChartPoint list" where
  \<comment> \<open>The constant \<open>chartData\<close> of \<open>generateMockData\<close>:
      \<open>Array.from({ length: Math.min(hours, 48) }, ...).reverse()\<close>; a length below zero
      is an empty array.\<close>
  "mockChart env hours = rev (fst (arrayFrom (mockPoint env) [0..<nat (min hours 48)] 0))"

definition generateMockData :: "GenEnv \<Rightarrow> int \<Rightarrow> JsError + SensorData" where
  \<comment> \<open>\<open>chartData[chartData.length - 1].temperature\<close> on an empty array raises a
      TypeError.\<close>
  "generateMockData env hours =
     (let chartData = mockChart env hours in
      case rev chartData of
        [] \<Rightarrow> Inl (TypeError ''Cannot read properties of undefined'')
      | newest # _ \<Rightarrow>
          Inr \<lparr> currentValues =
                  \<lparr> cv_temperature = pt_temperature newest,
                    cv_humidity = pt_humidity newest,
                    cv_smallDustParticles = pt_smallDust newest,
                    cv_largeParticles = pt_largeParticles newest,
                    cv_field3 = 0, cv_field6 = 0, cv_field7 = 0, cv_field8 = 0 \<rparr>,
                chartData = chartData,
                readings = [],
                totalReadings = length chartData,
                lastUpdated = dateNow env,
                isMockData = True,
                qualityMetrics =
                  \<lparr> temperatureStatus =
                      (if pt_temperature newest \<le> 24 then ''optimal'' else ''warning''),
                    humidityStatus =
                      (if pt_humidity newest \<le> 65 then ''optimal'' else ''warning''),
                    smallDustStatus =
                      (if pt_smallDust newest \<le> 20 then ''good'' else ''moderate''),
                    largeParticlesStatus =
                      (if pt_largeParticles newest \<le> 15 then ''good'' else ''moderate''),
                    overallQuality = Good \<rparr> \<rparr>)"

definition fetchTry :: "FetchOutcome \<Rightarrow> JsError + ApiResult" where
  \<comment> \<open>The \<open>try\<close> block of \<open>fetchData\<close> up to the choice between its success branch
      (\<open>Inr\<close>) and a thrown error (\<open>Inl\<close>).\<close>
  "fetchTry outcome =
     (case outcome of
        FetchThrows msg \<Rightarrow> Inl (Error msg)
      | FetchStatus code \<Rightarrow> Inl (Error (''HTTP error! status: '' @ showNat code))
      | FetchBody result \<Rightarrow>
          if success result \<or> isMockData (sensorData result) then Inr result
          else Inl (Error (case errorText result of
                             None \<Rightarrow> ''Failed to fetch sensor data''
                           | Some e \<Rightarrow> if e = [] then ''Failed to fetch sensor data'' else e)))"

definition fetchData :: "GenEnv \<Rightarrow> int \<Rightarrow> FetchOutcome \<Rightarrow> HookState \<Rightarrow> (JsError + unit) \<times> HookState" where
  "fetchData env hours outcome s0 =
     (let s1 = s0\<lparr> error := None \<rparr> in
      case fetchTry outcome of
        Inr result \<Rightarrow>
          (let d = sensorData result;
               d' = (if chartData d \<noteq> [] then d\<lparr> chartData := map clampPoint (chartData d) \<rparr>
                     else d)
           in (Inr (),
               s1\<lparr> data := Some d', lastSync := Some (dateNow env),
                   isUsingMockData := isMockData d, consecutiveErrors := 0,
                   loading := False \<rparr>))
      | Inl err \<Rightarrow>
          (let s2 = s1\<lparr> error := Some (message err),
                       consecutiveErrors := consecutiveErrors s1 + 1 \<rparr> in
           case generateMockData env hours of
             Inl e \<Rightarrow> (Inl e, s2\<lparr> loading := False \<rparr>)
           | Inr mockData \<Rightarrow>
               (Inr (), s2\<lparr> data := Some mockData, isUsingMockData := True,
                            loading := False \<rparr>)))"

definition syncTry ::
  "GenEnv \<Rightarrow> int \<Rightarrow> bool \<Rightarrow> SyncOutcome \<Rightarrow> FetchOutcome \<Rightarrow> HookState
     \<Rightarrow> (JsError + SyncResult) \<times> HookState" where
  \<comment> \<open>The \<open>try\<close> block of \<open>syncThingSpeak\<close>; \<open>refSet\<close> says whether
      \<open>fetchDataRef.current\<close> is set.\<close>
  "syncTry env hours refSet syncOutcome fetchOutcome s0 =
     (case syncOutcome of
        SyncThrows msg \<Rightarrow> (Inl (Error msg), s0)
      | SyncBody result \<Rightarrow>
          (let s1 = (if sync_success result then s0\<lparr> consecutiveErrors := 0 \<rparr>
                     else s0\<lparr> consecutiveErrors := consecutiveErrors s0 + 1 \<rparr>) in
           if refSet
           then (case fetchData env hours fetchOutcome s1 of
                   (Inl e, s2) \<Rightarrow> (Inl e, s2)
                 | (Inr _, s2) \<Rightarrow> (Inr result, s2))
           else (Inr result, s1)))"

definition syncThingSpeak ::
  "GenEnv \<Rightarrow> int \<Rightarrow> bool \<Rightarrow> SyncOutcome \<Rightarrow> FetchOutcome \<Rightarrow> HookState
     \<Rightarrow> (JsError + SyncResult) \<times> HookState" where
  "syncThingSpeak env hours refSet syncOutcome fetchOutcome s0 =
     (case syncTry env hours refSet syncOutcome fetchOutcome s0 of
        (Inr result, s1) \<Rightarrow> (Inr result, s1)
      | (Inl err, s1) \<Rightarrow>
          (Inr \<lparr> sync_success = False, sync_message = None,
                 sync_error = Some (message err) \<rparr>,
           s1\<lparr> consecutiveErrors := consecutiveErrors s1 + 1,
               error := Some (''Sync warning: '' @ message err) \<rparr>))"

definition FAST_INTERVAL :: nat where "FAST_INTERVAL = 30"
definition NORMAL_INTERVAL :: nat where "NORMAL_INTERVAL = 60"
definition SLOW_INTERVAL :: nat where "SLOW_INTERVAL = 120"
definition FALLBACK_INTERVAL :: nat where "FALLBACK_INTERVAL = 300"

definition calculateOptimalInterval :: "HookState \<Rightarrow> int \<Rightarrow> nat" where
  \<comment> \<open>The callback reads the state of the render that created it, here its argument;
      \<open>now\<close> is \<open>Date.now()\<close> at the call.\<close>
  "calculateOptimalInterval s now =
     (if consecutiveErrors s \<ge> 3 then FALLBACK_INTERVAL
      else if consecutiveErrors s \<ge> 1 then SLOW_INTERVAL
      else if isUsingMockData s then FAST_INTERVAL
      else if (case data s of None \<Rightarrow> False | Some _ \<Rightarrow> True) \<and> \<not> isUsingMockData s
              \<and> (case lastSync s of None \<Rightarrow> False
                   | Some t \<Rightarrow> now - t < 2 * 60 * 1000)
           then FAST_INTERVAL
      else NORMAL_INTERVAL)"

definition setupAutoSync :: "bool \<Rightarrow> int \<Rightarrow> HookState \<Rightarrow> HookState" where
  "setupAutoSync autoSync now s =
     (if \<not> autoSync then s else s\<lparr> syncInterval := calculateOptimalInterval s now \<rparr>)"

definition autoSyncTick ::
  "GenEnv \<Rightarrow> int \<Rightarrow> bool \<Rightarrow> SyncOutcome \<Rightarrow> FetchOutcome \<Rightarrow> int \<Rightarrow> HookState \<Rightarrow> HookState" where
  \<comment> \<open>One run of the timer callback installed by \<open>setupAutoSync\<close>: the interval it was
      installed with is the \<open>syncInterval\<close> of the state, and \<open>now\<close> is the time after
      the sync has settled.\<close>
  "autoSyncTick env hours refSet syncOutcome fetchOutcome now s0 =
     (case syncThingSpeak env hours refSet syncOutcome fetchOutcome s0 of
        (Inl e, s1) \<Rightarrow> s1
      | (Inr _, s1) \<Rightarrow>
          if calculateOptimalInterval s1 now \<noteq> syncInterval s0
          then setupAutoSync True now s1 else s1)"

inductive reachable :: "int \<Rightarrow> HookState \<Rightarrow> bool" for hours :: int where
  at_start: "reachable hours initialState"
| after_fetch: "reachable hours s \<Longrightarrow> reachable hours (snd (fetchData env hours outcome s))"
| after_sync: "reachable hours s \<Longrightarrow>
         reachable hours (snd (syncThingSpeak env hours refSet syncOutcome outcome s))"
| after_setup: "reachable hours s \<Longrightarrow> reachable hours (setupAutoSync autoSync now s)"
| after_tick: "reachable hours s \<Longrightarrow>
         reachable hours (autoSyncTick env hours refSet syncOutcome outcome now s)"

definition pointInBounds :: "ChartPoint \<Rightarrow> bool" where
  "pointInBounds p =
     inBounds (pt_temperature p) (pt_humidity p) (pt_smallDust p) (pt_largeParticles p)"

definition currentInBounds :: "CurrentValues \<Rightarrow> bool" where
  "currentInBounds cv =
     inBounds (cv_temperature cv) (cv_humidity cv) (cv_smallDustParticles cv)
       (cv_largeParticles cv)"

definition chartOf :: "HookState \<Rightarrow> ChartPoint list" where
  \<comment> \<open>The chart history a consumer reads: \<open>data?.chartData || []\<close>.\<close>
  "chartOf s = (case data s of None \<Rightarrow> [] | Some d \<Rightarrow> chartData d)"

definition exposedInBounds :: "HookState \<Rightarrow> bool" where
  \<comment> \<open>The clamping invariant on what a consumer of the hook reads: the current-values
      snapshot and every point of the chart history.\<close>
  "exposedInBounds s =
     (case data s of
        None \<Rightarrow> True
      | Some d \<Rightarrow> currentInBounds (currentValues d) \<and> list_all pointInBounds (chartData d))"

section \<open>Sample inputs\<close>

definition sampleData :: SensorData where
  \<comment> \<open>A response body with one real reading, as the route builds it.\<close>
  "sampleData =
     \<lparr> currentValues =
         \<lparr> cv_temperature = 21, cv_humidity = 58, cv_smallDustParticles = 12,
           cv_largeParticles = 7, cv_field3 = 0, cv_field6 = 0, cv_field7 = 0,
           cv_field8 = 0 \<rparr>,
       chartData =
         [\<lparr> pt_temperature = 21, pt_humidity = 58, pt_smallDust = 12,
            pt_largeParticles = 7, pt_timestamp = 0 \<rparr>],
       readings = [],
       totalReadings = 1,
       lastUpdated = 0,
       isMockData = False,
       qualityMetrics =
         \<lparr> temperatureStatus = ''optimal'', humidityStatus = ''optimal'',
           smallDustStatus = ''good'', largeParticlesStatus = ''good'',
           overallQuality = Excellent \<rparr> \<rparr>"

definition sampleResult :: ApiResult where
  "sampleResult =
     \<lparr> success = True, sensorData = sampleData, dataSource = Thingspeak,
       errorText = None, details = None \<rparr>"

definition liveState :: HookState where
  \<comment> \<open>The hook after it has loaded \<open>sampleData\<close> from the route.\<close>
  "liveState =
     \<lparr> data = Some sampleData, loading = False, error = None, lastSync = Some 0,
       isUsingMockData = False, syncInterval = 30, consecutiveErrors = 0 \<rparr>"

definition sampleEnv :: GenEnv where
  "sampleEnv = \<lparr> dateNow = 0, month = 3, rnd = (\<lambda>k. 1 / 2) \<rparr>"

definition hotFeed :: Feed where
  \<comment> \<open>A feed whose temperature field reads 45 degrees.\<close>
  "hotFeed =
     \<lparr> feed_field1 = Some 10, feed_field2 = Some 5, feed_field4 = Some 60,
       feed_field5 = Some 45, feed_field6 = None, feed_field7 = None, feed_field8 = None,
       feed_created_at = 0 \<rparr>"

section \<open>The generator: ranges and shape\<close>

lemma jsRound_lower: "of_int lo \<le> x + 1 / 2 \<Longrightarrow> of_int lo \<le> jsRound x"
  by (simp add: jsRound_def le_floor_iff)

lemma jsRound_upper: "x + 1 / 2 < of_int hi + 1 \<Longrightarrow> jsRound x \<le> of_int hi"
  unfolding jsRound_def by (simp add: floor_le_iff)

lemmas makeReading_unfold =
  makeReading_def getWeatherInfluence_def getDustAccumulation_def mathRandom_def Let_def

lemma makeReading_counter: "snd (makeReading env h n) = n + 5"
  by (simp add: makeReading_unfold)

lemma makeReading_timestamp:
  "timestamp (fst (makeReading env h n)) = dateNow env - h * 3600000"
  by (simp add: makeReading_unfold)

lemma temperature_range:
  assumes "unitDraws (rnd env)"
  shows "19 \<le> temperature (fst (makeReading env h n))
       \<and> temperature (fst (makeReading env h n)) \<le> 25"
proof -
  define a where "a = sin (((of_int (getHours (dateNow env - h * 3600000)) - 6) * pi) / 12)"
  define b where "b = sin (((of_int (month env) - 3) * pi) / 6)"
  define r1 where "r1 = rnd env n"
  define r2 where "r2 = rnd env (Suc n)"
  define x where "x = (22 + a * 0.3 * 3 + b * 0.2 * 2 + (r1 - 0.5) * 0.4 * 2 + (r2 - 0.5) * 1.5) * 10"
  have t: "temperature (fst (makeReading env h n)) = jsRound x / 10"
    by (simp add: makeReading_unfold x_def a_def b_def r1_def r2_def getTimeOfDayFactor_def
      getSeasonalFactor_def baseTemperature_def)
  have a: "-1 \<le> a" "a \<le> 1" and b: "-1 \<le> b" "b \<le> 1"
    by (simp_all add: a_def b_def)
  have r: "0 \<le> r1" "r1 < 1" "0 \<le> r2" "r2 < 1"
    using assms by (simp_all add: unitDraws_def r1_def r2_def)
  have xl: "x = 220 + 9 * a + 4 * b + 8 * r1 + 15 * r2 - 23 / 2"
    by (simp add: x_def field_simps)
  have "of_int 190 \<le> x + 1 / 2" using a b r unfolding xl by simp
  then have lo: "of_int 190 \<le> jsRound x" by (rule jsRound_lower)
  have "x + 1 / 2 < of_int 250 + 1" using a b r unfolding xl by simp
  then have hi: "jsRound x \<le> of_int 250" by (rule jsRound_upper)
  show ?thesis using lo hi by (simp add: t)
qed

lemma humidity_range:
  "35 \<le> humidity (fst (makeReading env h n))
   \<and> humidity (fst (makeReading env h n)) \<le> 85"
proof -
  have c: "of_int 35 \<le> jsRound (max 35 (min 85 X)) \<and> jsRound (max 35 (min 85 X)) \<le> of_int 85"
    for X :: real
  proof
    show "of_int 35 \<le> jsRound (max 35 (min 85 X))" by (rule jsRound_lower) simp
    show "jsRound (max 35 (min 85 X)) \<le> of_int 85" by (rule jsRound_upper) simp
  qed
  obtain X where "humidity (fst (makeReading env h n)) = jsRound (max 35 (min 85 X))"
    by (simp add: makeReading_unfold)
  then show ?thesis using c [of X] by simp
qed

lemma dust_range:
  assumes "unitDraws (rnd env)"
  shows "5 \<le> smallDustParticles (fst (makeReading env h n))
       \<and> smallDustParticles (fst (makeReading env h n)) \<le> 43
       \<and> 1 \<le> largeParticles (fst (makeReading env h n))
       \<and> largeParticles (fst (makeReading env h n)) \<le> 28"
proof -
  define acc where "acc = min (jsRem (of_int h / 24) 7 * 3) 25"
  define r4 where "r4 = rnd env (Suc (Suc (Suc n)))"
  define r5 where "r5 = rnd env (Suc (Suc (Suc (Suc n))))"
  define raw where "raw = 15 + acc + (r4 - 0.5) * 5"
  define d where "d = max 5 raw"
  define small where "small = jsRound (d * 10) / 10"
  define y where "y = (small * 0.6 + (r5 - 0.5) * 3) * 10"
  have s: "smallDustParticles (fst (makeReading env h n)) = small"
    by (simp add: makeReading_unfold small_def d_def raw_def acc_def r4_def baseSmallDust_def)
  have l: "largeParticles (fst (makeReading env h n)) = jsRound y / 10"
    by (simp add: makeReading_unfold y_def small_def d_def raw_def acc_def r4_def r5_def
        baseSmallDust_def)
  have r: "0 \<le> r4" "r4 < 1" "0 \<le> r5" "r5 < 1"
    using assms by (simp_all add: unitDraws_def r4_def r5_def)
  have acc: "acc \<le> 25" by (simp add: acc_def)
  have "raw \<le> 85 / 2" using acc r by (simp add: raw_def)
  then have d: "5 \<le> d" "d \<le> 85 / 2" by (simp_all add: d_def)
  have "of_int 50 \<le> d * 10 + 1 / 2" using d by simp
  then have s_lo: "of_int 50 \<le> jsRound (d * 10)" by (rule jsRound_lower)
  have "d * 10 + 1 / 2 < of_int 425 + 1" using d by simp
  then have s_hi: "jsRound (d * 10) \<le> of_int 425" by (rule jsRound_upper)
  have small: "5 \<le> small" "small \<le> 85 / 2" using s_lo s_hi by (simp_all add: small_def)
  have yl: "y = 6 * small + 30 * r5 - 15" by (simp add: y_def field_simps)
  have "of_int 15 \<le> y + 1 / 2" using small r unfolding yl by simp
  then have l_lo: "of_int 15 \<le> jsRound y" by (rule jsRound_lower)
  have "y + 1 / 2 < of_int 270 + 1" using small r unfolding yl by simp
  then have l_hi: "jsRound y \<le> of_int 270" by (rule jsRound_upper)
  show ?thesis using small l_lo l_hi by (simp add: s l)
qed

lemma makeReading_inBounds:
  assumes "unitDraws (rnd env)"
  shows "readingInBounds (fst (makeReading env h n))"
  using temperature_range [OF assms, of h n] humidity_range [of env h n]
    dust_range [OF assms, of h n]
  by (simp add: readingInBounds_def inBounds_def)

lemma generateReading_valid:
  assumes "validTime (dateNow env - h * 3600000)"
  shows "generateReading env h n = (Inr (fst (makeReading env h n)), n + 5)"
  using assms makeReading_counter [of env h n] makeReading_timestamp [of env h n]
  by (cases "makeReading env h n") (simp add: generateReading_def)

lemma generateReading_invalid:
  assumes "\<not> validTime (dateNow env - h * 3600000)"
  shows "generateReading env h n = (Inl (RangeError ''Invalid time value''), n + 5)"
  using assms makeReading_counter [of env h n] makeReading_timestamp [of env h n]
  by (cases "makeReading env h n") (simp add: generateReading_def)

lemma generateReading_returns_inBounds:
  assumes "unitDraws (rnd env)"
  shows "case fst (generateReading env h n) of
           Inl e \<Rightarrow> \<not> validTime (dateNow env - h * 3600000)
         | Inr r \<Rightarrow> readingInBounds r"
proof (cases "validTime (dateNow env - h * 3600000)")
  case True
  then show ?thesis
    by (simp add: generateReading_valid makeReading_inBounds [OF assms])
next
  case False
  then show ?thesis by (simp add: generateReading_invalid)
qed

lemma upt_shift: "map f [0..<Suc m] = f 0 # map (\<lambda>k. f (Suc k)) [0..<m]"
  by (simp only: upt_conv_Cons [of 0 "Suc m", OF zero_less_Suc] list.map map_Suc_upt [symmetric] map_map comp_def)

lemma validTime_between:
  assumes "validTime (dateNow env)" and "validTime (dateNow env - i * 3600000)"
    and "0 \<le> j" and "j \<le> i"
  shows "validTime (dateNow env - j * 3600000)"
  using assms by (simp add: validTime_def)

lemma historyLoop_eq:
  assumes "i < 0 \<or> validTime (dateNow env) \<and> validTime (dateNow env - i * 3600000)"
  shows "historyLoop env i n acc =
     (Inr (acc @ map (\<lambda>k. fst (makeReading env (i - int k) (n + 5 * k))) [0..<nat (i + 1)]),
      n + 5 * nat (i + 1))"
  using assms
proof (induction env i n acc rule: historyLoop.induct)
  case (1 env i n readings)
  show ?case
  proof (cases "i \<ge> 0")
    case False
    then show ?thesis by (subst historyLoop.simps) simp
  next
    case True
    then have v: "validTime (dateNow env)" "validTime (dateNow env - i * 3600000)"
      using "1.prems" by auto
    define r where "r = fst (makeReading env i n)"
    have g: "generateReading env i n = (Inr r, n + 5)"
      unfolding r_def using v(2) by (rule generateReading_valid)
    have m: "nat (i + 1) = Suc (nat i)" using True by simp
    have p: "i - 1 < 0 \<or> validTime (dateNow env) \<and> validTime (dateNow env - (i - 1) * 3600000)"
    proof (cases "i - 1 < 0")
      case True
      then show ?thesis by simp
    next
      case False
      then have "validTime (dateNow env - (i - 1) * 3600000)"
        using validTime_between [OF v, of "i - 1"] by simp
      then show ?thesis using v(1) by simp
    qed
    have ih: "historyLoop env (i - 1) (n + 5) (readings @ [r]) =
       (Inr ((readings @ [r]) @ map (\<lambda>k. fst (makeReading env (i - 1 - int k) (n + 5 + 5 * k)))
          [0..<nat (i - 1 + 1)]), n + 5 + 5 * nat (i - 1 + 1))"
      using "1.IH" [OF True g [symmetric] refl p] .
    have "historyLoop env i n readings = historyLoop env (i - 1) (n + 5) (readings @ [r])"
      using True g by (subst historyLoop.simps) simp
    also have "\<dots> = (Inr (readings @ map (\<lambda>k. fst (makeReading env (i - int k) (n + 5 * k)))
          [0..<nat (i + 1)]), n + 5 * nat (i + 1))"
      unfolding ih m upt_shift using True
      by (simp add: r_def algebra_simps)
    finally show ?thesis .
  qed
qed

lemma historyLoop_invalid:
  assumes "0 \<le> i" and "\<not> validTime (dateNow env - i * 3600000)"
  shows "historyLoop env i n acc = (Inl (RangeError ''Invalid time value''), n + 5)"
  using assms by (subst historyLoop.simps) (simp add: generateReading_invalid)

lemma generateHistoricalData_eq:
  assumes "N \<le> 0 \<or> validTime (dateNow env) \<and> validTime (dateNow env - (N - 1) * 3600000)"
  shows "generateHistoricalData env N n =
     (Inr (map (\<lambda>k. fst (makeReading env (N - 1 - int k) (n + 5 * k))) [0..<nat N]),
      n + 5 * nat N)"
proof -
  have "N - 1 < 0 \<or> validTime (dateNow env) \<and> validTime (dateNow env - (N - 1) * 3600000)"
    using assms by auto
  then show ?thesis by (simp add: generateHistoricalData_def historyLoop_eq)
qed

lemma generateHistoricalData_invalid:
  assumes "1 \<le> N" and "\<not> validTime (dateNow env - (N - 1) * 3600000)"
  shows "generateHistoricalData env N n = (Inl (RangeError ''Invalid time value''), n + 5)"
  using assms by (simp add: generateHistoricalData_def historyLoop_invalid)

lemma sorted_upt_map:
  assumes "\<And>i j. i < j \<Longrightarrow> j < m \<Longrightarrow> f i < (f j :: int)"
  shows "sorted_wrt (<) (map f [0..<m])"
  using assms by (simp add: sorted_wrt_map sorted_wrt_iff_nth_less)

text \<open>
  Claim C8, as amended.  For every \<open>N \<ge> 1\<close> whose oldest timestamp
  \<open>Date.now() - (N - 1) * 3600000\<close> is a valid date, \<open>generateHistoricalData N\<close>
  returns exactly \<open>N\<close> readings; the reading at position \<open>k\<close> is the one made for
  \<open>hoursAgo = N - 1 - k\<close> (the loop runs from \<open>N - 1\<close> down to 0 and appends), so the
  timestamps ascend from the oldest to the newest; and every reading has its four
  measurements inside the clamp bounds, the draws of \<open>Math.random()\<close> being in the
  unit interval.
\<close>

theorem generateHistoricalData_shape:
  assumes "1 \<le> N" and "unitDraws (rnd env)"
    and "validTime (dateNow env)" and "validTime (dateNow env - (N - 1) * 3600000)"
  shows "\<exists>rs. fst (generateHistoricalData env N n) = Inr rs
     \<and> int (length rs) = N
     \<and> rs = map (\<lambda>k. fst (makeReading env (N - 1 - int k) (n + 5 * k))) [0..<nat N]
     \<and> map timestamp rs = map (\<lambda>k. dateNow env - (N - 1 - int k) * 3600000) [0..<nat N]
     \<and> sorted_wrt (<) (map timestamp rs)
     \<and> list_all readingInBounds rs"
proof -
  define rs where "rs = map (\<lambda>k. fst (makeReading env (N - 1 - int k) (n + 5 * k))) [0..<nat N]"
  have eq: "fst (generateHistoricalData env N n) = Inr rs"
    using assms(3,4) by (simp add: generateHistoricalData_eq rs_def)
  have len: "int (length rs) = N" using assms(1) by (simp add: rs_def)
  have ts: "map timestamp rs = map (\<lambda>k. dateNow env - (N - 1 - int k) * 3600000) [0..<nat N]"
    by (simp add: rs_def makeReading_timestamp comp_def)
  have srt: "sorted_wrt (<) (map timestamp rs)"
    unfolding ts by (rule sorted_upt_map) simp
  have bnd: "list_all readingInBounds rs"
    by (simp add: rs_def list_all_iff makeReading_inBounds [OF assms(2)])
  show ?thesis using eq len ts srt bnd rs_def by blast
qed

text \<open>Two hours at the sample environment.\<close>

theorem generateHistoricalData_shape_witness:
  "(1::int) \<le> 2 \<and> unitDraws (rnd sampleEnv) \<and> validTime (dateNow sampleEnv)
   \<and> validTime (dateNow sampleEnv - (2 - 1) * 3600000)
   \<and> \<not> isl (fst (generateHistoricalData sampleEnv 2 0))
   \<and> int (length (projr (fst (generateHistoricalData sampleEnv 2 0)))) = 2
   \<and> sorted_wrt (<) (map timestamp (projr (fst (generateHistoricalData sampleEnv 2 0))))
   \<and> list_all readingInBounds (projr (fst (generateHistoricalData sampleEnv 2 0)))"
proof -
  have h1: "(1::int) \<le> 2" by simp
  have h2: "unitDraws (rnd sampleEnv)" by (simp add: sampleEnv_def unitDraws_def)
  have h3: "validTime (dateNow sampleEnv)" by (simp add: sampleEnv_def validTime_def)
  have h4: "validTime (dateNow sampleEnv - (2 - 1) * 3600000)"
    by (simp add: sampleEnv_def validTime_def)
  show ?thesis
    using generateHistoricalData_shape [OF h1 h2 h3 h4, of 0] h1 h2 h3 h4 by auto
qed

text \<open>
  Against claim C8 as stated (for every \<open>N \<ge> 1\<close>): a window of three thousand million
  hours puts the oldest timestamp outside the range of dates, and the call raises
  instead of returning a list.
\<close>

theorem generateHistoricalData_out_of_range:
  "fst (generateHistoricalData sampleEnv 3000000000 0) = Inl (RangeError ''Invalid time value'')"
proof -
  have "\<not> validTime (dateNow sampleEnv - (3000000000 - 1) * 3600000)"
    by (simp add: sampleEnv_def validTime_def)
  then show ?thesis by (simp add: generateHistoricalData_invalid)
qed

text \<open>
  Claim C5.  The score of the quality classifier starts at 100 and loses the fixed,
  cumulative penalties of the temperature, humidity and small-dust bands; the class is
  read off the score at the thresholds 85, 70, 50 and 30.  The reading
  (24, 65, 20) scores at least the threshold of \<open>Good\<close>, and (31, 80, 55) is
  \<open>Hazardous\<close>.
\<close>

theorem determineQuality_penalty_score:
  "qualityScore t h d =
     100 - (if t < 18 \<or> t > 24 then 20 else 0) - (if t < 15 \<or> t > 28 then 30 else 0)
         - (if h < 50 \<or> h > 65 then 15 else 0) - (if h < 40 \<or> h > 75 then 25 else 0)
         - (if d > 20 then 15 else 0) - (if d > 35 then 25 else 0) - (if d > 50 then 40 else 0)
   \<and> determineQuality t h d =
       (if qualityScore t h d \<ge> 85 then Excellent
        else if qualityScore t h d \<ge> 70 then Good
        else if qualityScore t h d \<ge> 50 then Moderate
        else if qualityScore t h d \<ge> 30 then Poor
        else Hazardous)
   \<and> qualityScore 24 65 20 \<ge> 70
   \<and> determineQuality 24 65 20 \<in> {Excellent, Good}
   \<and> determineQuality 31 80 55 = Hazardous"
  by (simp add: qualityScore_def determineQuality_def Let_def)

section \<open>Mock data of the hook\<close>

lemma arrayFrom_length: "length (fst (arrayFrom f js n)) = length js"
proof (induction js arbitrary: n)
  case Nil
  show ?case by simp
next
  case (Cons j js)
  obtain x n' where fx: "f j n = (x, n')" by (cases "f j n")
  obtain xs n'' where rest: "arrayFrom f js n' = (xs, n'')" by (cases "arrayFrom f js n'")
  have "length xs = length js" using Cons.IH [of n'] rest by simp
  then show ?case by (simp add: fx rest)
qed

lemma arrayFrom_all:
  assumes "\<And>i n. P (fst (f i n))"
  shows "list_all P (fst (arrayFrom f js n))"
proof (induction js arbitrary: n)
  case Nil
  show ?case by simp
next
  case (Cons j js)
  obtain x n' where fx: "f j n = (x, n')" by (cases "f j n")
  obtain xs n'' where rest: "arrayFrom f js n' = (xs, n'')" by (cases "arrayFrom f js n'")
  have "P x" using assms [of j n] fx by simp
  moreover have "list_all P xs" using Cons.IH [of n'] rest by simp
  ultimately show ?case by (simp add: fx rest)
qed

lemma arrayFrom_map:
  assumes "\<And>i n. g (fst (f i n)) = h i"
  shows "map g (fst (arrayFrom f js n)) = map h js"
proof (induction js arbitrary: n)
  case Nil
  show ?case by simp
next
  case (Cons j js)
  obtain x n' where fx: "f j n = (x, n')" by (cases "f j n")
  obtain xs n'' where rest: "arrayFrom f js n' = (xs, n'')" by (cases "arrayFrom f js n'")
  have "g x = h j" using assms [of j n] fx by simp
  moreover have "map g xs = map h js" using Cons.IH [of n'] rest by simp
  ultimately show ?case by (simp add: fx rest)
qed

lemma mockPoint_inBounds: "pointInBounds (fst (mockPoint env i n))"
  by (simp add: mockPoint_def mathRandom_def Let_def pointInBounds_def inBounds_def)

lemma mockPoint_timestamp: "pt_timestamp (fst (mockPoint env i n)) = dateNow env - int i * 3600000"
  by (simp add: mockPoint_def mathRandom_def Let_def)

lemma clampPoint_inBounds: "pointInBounds (clampPoint p)"
  by (simp add: clampPoint_def pointInBounds_def inBounds_def)

lemma mockChart_length: "length (mockChart env hours) = nat (min hours 48)"
  by (simp add: mockChart_def arrayFrom_length)

lemma mockChart_inBounds: "list_all pointInBounds (mockChart env hours)"
  using arrayFrom_all [of pointInBounds "mockPoint env", OF mockPoint_inBounds]
  by (simp add: mockChart_def list_all_iff)

lemma mockChart_sorted: "sorted_wrt (<) (map pt_timestamp (mockChart env hours))"
proof -
  have "map pt_timestamp (fst (arrayFrom (mockPoint env) [0..<nat (min hours 48)] 0))
      = map (\<lambda>i. dateNow env - int i * 3600000) [0..<nat (min hours 48)]"
    by (rule arrayFrom_map) (rule mockPoint_timestamp)
  then have ts: "map pt_timestamp (mockChart env hours)
      = rev (map (\<lambda>i. dateNow env - int i * 3600000) [0..<nat (min hours 48)])"
    by (metis mockChart_def rev_map)
  have "sorted_wrt (\<lambda>x y. y < x)
      (map (\<lambda>i. dateNow env - int i * 3600000) [0..<nat (min hours 48)])"
    by (simp add: sorted_wrt_map sorted_wrt_iff_nth_less)
  then have "sorted_wrt (<)
      (rev (map (\<lambda>i. dateNow env - int i * 3600000) [0..<nat (min hours 48)]))"
    by (simp only: sorted_wrt_rev)
  then show ?thesis by (simp only: ts)
qed

lemma generateMockData_cases:
  "generateMockData env hours =
     (if mockChart env hours = [] then Inl (TypeError ''Cannot read properties of undefined'')
      else Inr \<lparr> currentValues =
                  \<lparr> cv_temperature = pt_temperature (last (mockChart env hours)),
                    cv_humidity = pt_humidity (last (mockChart env hours)),
                    cv_smallDustParticles = pt_smallDust (last (mockChart env hours)),
                    cv_largeParticles = pt_largeParticles (last (mockChart env hours)),
                    cv_field3 = 0, cv_field6 = 0, cv_field7 = 0, cv_field8 = 0 \<rparr>,
                chartData = mockChart env hours,
                readings = [],
                totalReadings = length (mockChart env hours),
                lastUpdated = dateNow env,
                isMockData = True,
                qualityMetrics =
                  \<lparr> temperatureStatus =
                      (if pt_temperature (last (mockChart env hours)) \<le> 24 then ''optimal'' else ''warning''),
                    humidityStatus =
                      (if pt_humidity (last (mockChart env hours)) \<le> 65 then ''optimal'' else ''warning''),
                    smallDustStatus =
                      (if pt_smallDust (last (mockChart env hours)) \<le> 20 then ''good'' else ''moderate''),
                    largeParticlesStatus =
                      (if pt_largeParticles (last (mockChart env hours)) \<le> 15 then ''good'' else ''moderate''),
                    overallQuality = Good \<rparr> \<rparr>)"
proof (cases "rev (mockChart env hours)")
  case Nil
  then show ?thesis by (simp add: generateMockData_def Let_def)
next
  case (Cons newest rest)
  then have ne: "mockChart env hours \<noteq> []" by auto
  have l: "last (mockChart env hours) = newest"
    using Cons by (metis list.sel(1) hd_rev)
  show ?thesis using Cons ne l
    by (simp add: generateMockData_def Let_def)
qed

lemma mockChart_nonempty: "1 \<le> hours \<Longrightarrow> mockChart env hours \<noteq> []"
  using mockChart_length [of env hours] by auto

lemma mockChart_empty: "hours \<le> 0 \<Longrightarrow> mockChart env hours = []"
  using mockChart_length [of env hours] by auto

text \<open>
  Claim C10, as amended.  For every window of at least one hour, \<open>generateMockData\<close>
  returns a chart series of \<open>min hours 48\<close> points (so fewer points than hours once the
  window exceeds 48), in ascending order of time and inside the display bounds, with the
  current values taken from the newest point and \<open>isMockData\<close> set.
\<close>

theorem generateMockData_capped:
  assumes "1 \<le> hours"
  shows "\<exists>d. generateMockData env hours = Inr d
     \<and> int (length (chartData d)) = min hours 48
     \<and> (if 48 < hours then int (length (chartData d)) < hours
         else int (length (chartData d)) = hours)
     \<and> sorted_wrt (<) (map pt_timestamp (chartData d))
     \<and> list_all pointInBounds (chartData d)
     \<and> cv_temperature (currentValues d) = pt_temperature (last (chartData d))
     \<and> cv_humidity (currentValues d) = pt_humidity (last (chartData d))
     \<and> cv_smallDustParticles (currentValues d) = pt_smallDust (last (chartData d))
     \<and> cv_largeParticles (currentValues d) = pt_largeParticles (last (chartData d))
     \<and> totalReadings d = length (chartData d)
     \<and> isMockData d"
proof -
  have ne: "mockChart env hours \<noteq> []" using assms by (rule mockChart_nonempty)
  have len: "int (length (mockChart env hours)) = min hours 48"
    using assms by (simp add: mockChart_length)
  show ?thesis
    using len mockChart_sorted [of env hours] mockChart_inBounds [of env hours]
    by (simp add: generateMockData_cases ne)
qed

text \<open>A window of 100 hours gives 48 points.\<close>

theorem generateMockData_capped_witness:
  "(1::int) \<le> 100
   \<and> (\<exists>d. generateMockData sampleEnv 100 = Inr d \<and> length (chartData d) = 48
          \<and> list_all pointInBounds (chartData d) \<and> isMockData d)"
proof -
  have h: "(1::int) \<le> 100" by simp
  show ?thesis using generateMockData_capped [OF h, of sampleEnv] by auto
qed

text \<open>
  Against claim C10 as stated (for every \<open>hours\<close>): on a window of zero hours the series
  is empty, no newest point exists, and the call raises instead of returning.
\<close>

theorem generateMockData_empty_window:
  "generateMockData sampleEnv 0 = Inl (TypeError ''Cannot read properties of undefined'')"
  by (simp add: generateMockData_cases mockChart_empty)

section \<open>One fetch\<close>

lemma fetchData_success:
  assumes "fetchTry outcome = Inr result"
  shows "fetchData env hours outcome s =
     (Inr (),
      s\<lparr> error := None,
         data := Some (if chartData (sensorData result) \<noteq> []
                       then (sensorData result)\<lparr> chartData := map clampPoint (chartData (sensorData result)) \<rparr>
                       else sensorData result),
         lastSync := Some (dateNow env),
         isUsingMockData := isMockData (sensorData result),
         consecutiveErrors := 0, loading := False \<rparr>)"
  using assms by (simp add: fetchData_def Let_def)

lemma fetchData_failure:
  assumes "fetchTry outcome = Inl err" and "generateMockData env hours = Inr mock"
  shows "fetchData env hours outcome s =
     (Inr (),
      s\<lparr> error := Some (message err), consecutiveErrors := consecutiveErrors s + 1,
         data := Some mock, isUsingMockData := True, loading := False \<rparr>)"
  using assms by (simp add: fetchData_def Let_def)

lemma fetchData_rejects:
  assumes "fetchTry outcome = Inl err" and "generateMockData env hours = Inl e"
  shows "fetchData env hours outcome s =
     (Inl e,
      s\<lparr> error := Some (message err), consecutiveErrors := consecutiveErrors s + 1,
         loading := False \<rparr>)"
  using assms by (simp add: fetchData_def Let_def)

lemma generateMockData_Inr:
  "generateMockData env hours = Inr mock \<Longrightarrow>
     isMockData mock \<and> chartData mock = mockChart env hours \<and> chartData mock \<noteq> []
     \<and> currentInBounds (currentValues mock)"
proof -
  assume a: "generateMockData env hours = Inr mock"
  then have ne: "mockChart env hours \<noteq> []"
    by (auto simp: generateMockData_cases split: if_splits)
  have "list_all pointInBounds (mockChart env hours)" by (rule mockChart_inBounds)
  then have "pointInBounds (last (mockChart env hours))"
    using ne by (simp add: list_all_iff)
  then show ?thesis using a ne
    by (auto simp: generateMockData_cases currentInBounds_def pointInBounds_def)
qed

section \<open>Invariants of the hook state\<close>

lemma fetchData_cases:
  obtains (ok) result where "fetchTry outcome = Inr result"
  | (mock) err m where "fetchTry outcome = Inl err" "generateMockData env hours = Inr m"
  | (rej) err e where "fetchTry outcome = Inl err" "generateMockData env hours = Inl e"
  by (cases "fetchTry outcome"; cases "generateMockData env hours") auto


lemma fetchData_synced_has_data:
  assumes "lastSync s = None \<or> data s \<noteq> None"
  shows "lastSync (snd (fetchData env hours outcome s)) = None
       \<or> data (snd (fetchData env hours outcome s)) \<noteq> None"
proof (cases rule: fetchData_cases [where outcome = outcome and env = env and hours = hours])
  case (ok result)
  then show ?thesis by (simp add: fetchData_success)
next
  case (mock err m)
  then show ?thesis by (simp add: fetchData_failure)
next
  case (rej err e)
  then show ?thesis using assms by (simp add: fetchData_rejects)
qed

lemma fetchData_chart_inBounds:
  assumes "list_all pointInBounds (chartOf s)"
  shows "list_all pointInBounds (chartOf (snd (fetchData env hours outcome s)))"
proof (cases rule: fetchData_cases [where outcome = outcome and env = env and hours = hours])
  case (ok result)
  then show ?thesis
    by (simp add: fetchData_success chartOf_def list_all_iff clampPoint_inBounds)
next
  case (mock err m)
  then show ?thesis
    using generateMockData_Inr [OF mock(2)] mockChart_inBounds [of env hours]
    by (simp add: fetchData_failure chartOf_def)
next
  case (rej err e)
  then show ?thesis using assms by (simp add: fetchData_rejects chartOf_def)
qed

lemma syncThingSpeak_state:
  obtains (threw) msg where
      "snd (syncThingSpeak env hours refSet so fo s) =
         s\<lparr> consecutiveErrors := consecutiveErrors s + 1, error := Some msg \<rparr>"
  | (fetched) n where
      "snd (syncThingSpeak env hours refSet so fo s) =
         snd (fetchData env hours fo (s\<lparr> consecutiveErrors := n \<rparr>))"
  | (refetch_rejected) n msg where
      "snd (syncThingSpeak env hours refSet so fo s) =
         (snd (fetchData env hours fo (s\<lparr> consecutiveErrors := n \<rparr>)))
           \<lparr> consecutiveErrors :=
               consecutiveErrors (snd (fetchData env hours fo (s\<lparr> consecutiveErrors := n \<rparr>))) + 1,
             error := Some msg \<rparr>"
  | (no_refetch) n where
      "snd (syncThingSpeak env hours refSet so fo s) = s\<lparr> consecutiveErrors := n \<rparr>"
proof (cases so)
  case (SyncThrows msg)
  then show ?thesis using threw by (simp add: syncThingSpeak_def syncTry_def)
next
  case (SyncBody r)
  define n where "n = (if sync_success r then 0 else consecutiveErrors s + 1)"
  have s1: "(if sync_success r then s\<lparr> consecutiveErrors := 0 \<rparr>
             else s\<lparr> consecutiveErrors := consecutiveErrors s + 1 \<rparr>) = s\<lparr> consecutiveErrors := n \<rparr>"
    by (simp add: n_def)
  show ?thesis
  proof (cases refSet)
    case False
    then show ?thesis using no_refetch [where n = n] SyncBody s1
      by (simp add: syncThingSpeak_def syncTry_def Let_def)
  next
    case True
    obtain res s2 where f: "fetchData env hours fo (s\<lparr> consecutiveErrors := n \<rparr>) = (res, s2)"
      by (cases "fetchData env hours fo (s\<lparr> consecutiveErrors := n \<rparr>)")
    show ?thesis
    proof (cases res)
      case (Inl e)
      then show ?thesis using refetch_rejected [where n = n] SyncBody s1 True f
        by (simp add: syncThingSpeak_def syncTry_def Let_def)
    next
      case (Inr u)
      then show ?thesis using fetched [where n = n] SyncBody s1 True f
        by (simp add: syncThingSpeak_def syncTry_def Let_def)
    qed
  qed
qed

lemma syncThingSpeak_synced_has_data:
  assumes "lastSync s = None \<or> data s \<noteq> None"
  shows "lastSync (snd (syncThingSpeak env hours refSet so fo s)) = None
       \<or> data (snd (syncThingSpeak env hours refSet so fo s)) \<noteq> None"
proof (cases rule: syncThingSpeak_state [where env = env and hours = hours and refSet = refSet and so = so and fo = fo and s = s])
  case (threw msg)
  then show ?thesis using assms by simp
next
  case (fetched n)
  then show ?thesis
    using fetchData_synced_has_data [of "s\<lparr> consecutiveErrors := n \<rparr>" env hours fo] assms by simp
next
  case (refetch_rejected n msg)
  then show ?thesis
    using fetchData_synced_has_data [of "s\<lparr> consecutiveErrors := n \<rparr>" env hours fo] assms by simp
next
  case (no_refetch n)
  then show ?thesis using assms by simp
qed

lemma syncThingSpeak_chart_inBounds:
  assumes "list_all pointInBounds (chartOf s)"
  shows "list_all pointInBounds (chartOf (snd (syncThingSpeak env hours refSet so fo s)))"
proof (cases rule: syncThingSpeak_state [where env = env and hours = hours and refSet = refSet and so = so and fo = fo and s = s])
  case (threw msg)
  then show ?thesis using assms by (simp add: chartOf_def)
next
  case (fetched n)
  then show ?thesis
    using fetchData_chart_inBounds [of "s\<lparr> consecutiveErrors := n \<rparr>" env hours fo] assms
    by (simp add: chartOf_def)
next
  case (refetch_rejected n msg)
  then show ?thesis
    using fetchData_chart_inBounds [of "s\<lparr> consecutiveErrors := n \<rparr>" env hours fo] assms
    by (simp add: chartOf_def)
next
  case (no_refetch n)
  then show ?thesis using assms by (simp add: chartOf_def)
qed

lemma autoSyncTick_state:
  "autoSyncTick env hours refSet so fo now s =
     (snd (syncThingSpeak env hours refSet so fo s))
       \<lparr> syncInterval := syncInterval (autoSyncTick env hours refSet so fo now s) \<rparr>"
  by (cases "syncThingSpeak env hours refSet so fo s")
     (auto simp: autoSyncTick_def setupAutoSync_def split: sum.splits)

lemma reachable_synced_has_data:
  "reachable hours s \<Longrightarrow> lastSync s = None \<or> data s \<noteq> None"
proof (induction rule: reachable.induct)
  case at_start
  show ?case by (simp add: initialState_def)
next
  case (after_fetch s env outcome)
  from after_fetch.IH show ?case by (rule fetchData_synced_has_data)
next
  case (after_sync s env refSet syncOutcome outcome)
  from after_sync.IH show ?case by (rule syncThingSpeak_synced_has_data)
next
  case (after_setup s autoSync now)
  then show ?case by (simp add: setupAutoSync_def)
next
  case (after_tick s env refSet syncOutcome outcome now)
  have "lastSync (snd (syncThingSpeak env hours refSet syncOutcome outcome s)) = None
       \<or> data (snd (syncThingSpeak env hours refSet syncOutcome outcome s)) \<noteq> None"
    using after_tick.IH by (rule syncThingSpeak_synced_has_data)
  then show ?case
    by (subst (1 2) autoSyncTick_state) simp
qed

lemma reachable_chart_inBounds:
  "reachable hours s \<Longrightarrow> list_all pointInBounds (chartOf s)"
proof (induction rule: reachable.induct)
  case at_start
  show ?case by (simp add: initialState_def chartOf_def)
next
  case (after_fetch s env outcome)
  from after_fetch.IH show ?case by (rule fetchData_chart_inBounds)
next
  case (after_sync s env refSet syncOutcome outcome)
  from after_sync.IH show ?case by (rule syncThingSpeak_chart_inBounds)
next
  case (after_setup s autoSync now)
  then show ?case by (simp add: setupAutoSync_def chartOf_def)
next
  case (after_tick s env refSet syncOutcome outcome now)
  have "list_all pointInBounds (chartOf (snd (syncThingSpeak env hours refSet syncOutcome outcome s)))"
    using after_tick.IH by (rule syncThingSpeak_chart_inBounds)
  then show ?case
    by (subst autoSyncTick_state) (simp add: chartOf_def)
qed

section \<open>Cadence and error reset\<close>

lemma liveState_reachable: "reachable 24 liveState"
proof -
  have t: "fetchTry (FetchBody sampleResult) = Inr sampleResult"
    by (simp add: fetchTry_def sampleResult_def)
  have "snd (fetchData sampleEnv 24 (FetchBody sampleResult) initialState) = liveState"
    unfolding fetchData_success [OF t]
    by (simp add: sampleResult_def sampleData_def initialState_def
        liveState_def sampleEnv_def clampPoint_def jsOr_def)
  then show ?thesis using after_fetch [OF at_start, of 24 sampleEnv "FetchBody sampleResult"]
    by simp
qed

lemmas interval_consts =
  FAST_INTERVAL_def NORMAL_INTERVAL_def SLOW_INTERVAL_def FALLBACK_INTERVAL_def

text \<open>
  Claim C1.  In every state the hook can reach, the interval computed by
  \<open>calculateOptimalInterval\<close> follows the priority order: 300 seconds from three
  consecutive errors on, 120 seconds from one error on, else 30 seconds when mock data
  is in use, else 30 seconds when the last successful sync is less than two minutes
  old, else 60 seconds.  For the error counts 0, 1, 2, 3, 4 the intervals are
  30 or 60, then 120, 120, 300, 300.  (The source also asks for \<open>data\<close> to be set in
  the fourth rule; in a reachable state a recorded sync implies it.)
\<close>

theorem calculateOptimalInterval_priority:
  assumes "reachable hours s"
  shows "calculateOptimalInterval s now =
     (if consecutiveErrors s \<ge> 3 then 300
      else if consecutiveErrors s \<ge> 1 then 120
      else if isUsingMockData s then 30
      else if (case lastSync s of None \<Rightarrow> False | Some t \<Rightarrow> now - t < 120000) then 30
      else 60)
   \<and> map (\<lambda>k. calculateOptimalInterval (s\<lparr> consecutiveErrors := k \<rparr>) now) [0, 1, 2, 3, 4]
       = [calculateOptimalInterval (s\<lparr> consecutiveErrors := 0 \<rparr>) now, 120, 120, 300, 300]
   \<and> (calculateOptimalInterval (s\<lparr> consecutiveErrors := 0 \<rparr>) now = 30
      \<or> calculateOptimalInterval (s\<lparr> consecutiveErrors := 0 \<rparr>) now = 60)"
proof -
  have inv: "lastSync s = None \<or> data s \<noteq> None"
    using assms by (rule reachable_synced_has_data)
  have a: "calculateOptimalInterval s now =
     (if consecutiveErrors s \<ge> 3 then 300
      else if consecutiveErrors s \<ge> 1 then 120
      else if isUsingMockData s then 30
      else if (case lastSync s of None \<Rightarrow> False | Some t \<Rightarrow> now - t < 120000) then 30
      else 60)"
    using inv by (auto simp: calculateOptimalInterval_def interval_consts split: option.splits)
  have b: "map (\<lambda>k. calculateOptimalInterval (s\<lparr> consecutiveErrors := k \<rparr>) now) [0, 1, 2, 3, 4]
       = [calculateOptimalInterval (s\<lparr> consecutiveErrors := 0 \<rparr>) now, 120, 120, 300, 300]"
    by (simp add: calculateOptimalInterval_def interval_consts)
  have c: "calculateOptimalInterval (s\<lparr> consecutiveErrors := 0 \<rparr>) now = 30
      \<or> calculateOptimalInterval (s\<lparr> consecutiveErrors := 0 \<rparr>) now = 60"
    by (simp add: calculateOptimalInterval_def interval_consts)
  show ?thesis using a b c by blast
qed

text \<open>The state after one real reading has been loaded, one second and two minutes later.\<close>

theorem calculateOptimalInterval_priority_witness:
  "reachable 24 liveState
   \<and> calculateOptimalInterval liveState 1000 = 30
   \<and> calculateOptimalInterval liveState 120000 = 60
   \<and> map (\<lambda>k. calculateOptimalInterval (liveState\<lparr> consecutiveErrors := k \<rparr>) 1000) [0, 1, 2, 3, 4]
       = [30, 120, 120, 300, 300]"
  using calculateOptimalInterval_priority [OF liveState_reachable, of 1000]
    calculateOptimalInterval_priority [OF liveState_reachable, of 120000]
    liveState_reachable
  by (simp add: liveState_def)

text \<open>
  Claim C3.  Whatever the number of preceding failures, a successful fetch leaves
  \<open>consecutiveErrors\<close> at 0; a successful sync sets the counter to 0 before it
  re-fetches (the cycle then runs as from a state without errors) and, its re-fetch
  succeeding, leaves it at 0.  After a successful fetch whose data is mock data, or
  for two minutes after it, the computed interval is 30 seconds, and one more timer
  cycle with a successful fetch leaves the counter at 0 and \<open>syncInterval\<close> at 30.
\<close>

theorem success_resets_errors:
  assumes "fetchTry outcome = Inr result"
  shows "consecutiveErrors (snd (fetchData env hours outcome s)) = 0
   \<and> (sync_success r \<longrightarrow>
        consecutiveErrors (snd (syncThingSpeak env hours refSet (SyncBody r) outcome s)) = 0)
   \<and> (sync_success r \<longrightarrow>
        syncThingSpeak env hours refSet (SyncBody r) other s =
        syncThingSpeak env hours refSet (SyncBody r) other (s\<lparr> consecutiveErrors := 0 \<rparr>))
   \<and> (isMockData (sensorData result) \<or> now - dateNow env < 120000 \<longrightarrow>
        calculateOptimalInterval (snd (fetchData env hours outcome s)) now = 30
        \<and> consecutiveErrors (autoSyncTick env hours True (SyncBody r) outcome now s) = 0
        \<and> syncInterval (autoSyncTick env hours True (SyncBody r) outcome now s) = 30)"
proof -
  note f = fetchData_success [OF assms]
  have a: "consecutiveErrors (snd (fetchData env hours outcome s)) = 0" by (simp add: f)
  have b: "sync_success r \<longrightarrow>
        consecutiveErrors (snd (syncThingSpeak env hours refSet (SyncBody r) outcome s)) = 0"
    by (simp add: syncThingSpeak_def syncTry_def Let_def f)
  have c: "sync_success r \<longrightarrow>
        syncThingSpeak env hours refSet (SyncBody r) other s =
        syncThingSpeak env hours refSet (SyncBody r) other (s\<lparr> consecutiveErrors := 0 \<rparr>)"
    by (simp add: syncThingSpeak_def syncTry_def Let_def)
  have d: "calculateOptimalInterval (snd (fetchData env hours outcome s)) now = 30
        \<and> consecutiveErrors (autoSyncTick env hours True (SyncBody r) outcome now s) = 0
        \<and> syncInterval (autoSyncTick env hours True (SyncBody r) outcome now s) = 30"
    if "isMockData (sensorData result) \<or> now - dateNow env < 120000"
    using that
    by (auto simp: autoSyncTick_def setupAutoSync_def syncThingSpeak_def syncTry_def Let_def f
        calculateOptimalInterval_def interval_consts)
  show ?thesis using a b c d by blast
qed

text \<open>Seven failures, then one successful fetch.\<close>

theorem success_resets_errors_witness:
  "fetchTry (FetchBody sampleResult) = Inr sampleResult
   \<and> consecutiveErrors
       (snd (fetchData sampleEnv 24 (FetchBody sampleResult)
          (initialState\<lparr> consecutiveErrors := 7 \<rparr>))) = 0
   \<and> calculateOptimalInterval
       (snd (fetchData sampleEnv 24 (FetchBody sampleResult)
          (initialState\<lparr> consecutiveErrors := 7 \<rparr>))) 1000 = 30"
proof -
  have t: "fetchTry (FetchBody sampleResult) = Inr sampleResult"
    by (simp add: fetchTry_def sampleResult_def)
  show ?thesis
    using success_resets_errors [OF t, where env = sampleEnv and hours = 24
        and s = "initialState\<lparr> consecutiveErrors := 7 \<rparr>" and now = 1000] t
    by (simp add: sampleEnv_def)
qed

text \<open>
  A successful sync whose re-fetch fails does not end at 0: the counter restarts from 0
  and the failed fetch counts once.
\<close>

lemma successful_sync_failed_refetch:
  assumes "sync_success r" and "1 \<le> hours" and "fetchTry fo = Inl err"
  shows "consecutiveErrors (snd (syncThingSpeak env hours True (SyncBody r) fo s)) = 1"
proof -
  obtain mock where m: "generateMockData env hours = Inr mock"
    using mockChart_nonempty [OF assms(2), of env] by (simp add: generateMockData_cases)
  show ?thesis
    using assms(1)
    by (simp add: syncThingSpeak_def syncTry_def Let_def fetchData_failure [OF assms(3) m])
qed

section \<open>Failures\<close>

lemma generateMockData_window:
  assumes "1 \<le> hours"
  shows "\<exists>mock. generateMockData env hours = Inr mock \<and> isMockData mock"
  using mockChart_nonempty [OF assms, of env] by (simp add: generateMockData_cases)

text \<open>
  Claim C6, as amended.  After a failed or timed-out fetch on a window of at least one
  hour, the hook records the message, increments the error counter and replaces the
  data by locally generated mock data, marked \<open>isMockData\<close>, with
  \<open>isUsingMockData\<close> set; \<open>lastSync\<close> alone is left as it was.  This is the state a
  consumer reads, before and after the effect that installs the timer again
  (\<open>setupAutoSync\<close>).
\<close>

theorem failed_fetch_serves_mock:
  assumes "1 \<le> hours" and "fetchTry outcome = Inl err"
  shows "\<exists>mock. generateMockData env hours = Inr mock \<and> isMockData mock
     \<and> chartData mock = mockChart env hours
     \<and> fst (fetchData env hours outcome s) = Inr ()
     \<and> data (setupAutoSync autoSync now (snd (fetchData env hours outcome s))) = Some mock
     \<and> consecutiveErrors (setupAutoSync autoSync now (snd (fetchData env hours outcome s)))
           = consecutiveErrors s + 1
     \<and> isUsingMockData (setupAutoSync autoSync now (snd (fetchData env hours outcome s)))
     \<and> error (setupAutoSync autoSync now (snd (fetchData env hours outcome s)))
           = Some (message err)
     \<and> lastSync (setupAutoSync autoSync now (snd (fetchData env hours outcome s))) = lastSync s"
proof -
  obtain mock where m: "generateMockData env hours = Inr mock"
    using generateMockData_window [OF assms(1), of env] by blast
  show ?thesis
    using m generateMockData_Inr [OF m]
    by (simp add: fetchData_failure [OF assms(2) m] setupAutoSync_def)
qed

text \<open>A timeout after a real reading had been loaded, with the timer installed again.\<close>

theorem failed_fetch_serves_mock_witness:
  "(1::int) \<le> 1 \<and> fetchTry (FetchThrows ''timeout'') = Inl (Error ''timeout'')
   \<and> consecutiveErrors
        (setupAutoSync True 1000 (snd (fetchData sampleEnv 1 (FetchThrows ''timeout'') liveState))) = 1
   \<and> isUsingMockData
        (setupAutoSync True 1000 (snd (fetchData sampleEnv 1 (FetchThrows ''timeout'') liveState)))
   \<and> error
        (setupAutoSync True 1000 (snd (fetchData sampleEnv 1 (FetchThrows ''timeout'') liveState)))
        = Some ''timeout''
   \<and> lastSync
        (setupAutoSync True 1000 (snd (fetchData sampleEnv 1 (FetchThrows ''timeout'') liveState)))
        = Some 0"
proof -
  have h: "(1::int) \<le> 1" by simp
  have t: "fetchTry (FetchThrows ''timeout'') = Inl (Error ''timeout'')"
    by (simp add: fetchTry_def)
  show ?thesis
    using failed_fetch_serves_mock [OF h t, where env = sampleEnv and autoSync = True
        and now = 1000 and s = liveState] t
    by (auto simp: liveState_def)
qed

text \<open>
  Against claim C6 as stated: after a timed-out fetch the data a consumer reads is not
  the data it read before.
\<close>

theorem failed_fetch_discards_prior_state:
  "data (snd (fetchData sampleEnv 1 (FetchThrows ''timeout'') liveState)) \<noteq> data liveState"
proof -
  have t: "fetchTry (FetchThrows ''timeout'') = Inl (Error ''timeout'')"
    by (simp add: fetchTry_def)
  obtain mock where m: "generateMockData sampleEnv 1 = Inr mock" and im: "isMockData mock"
    using generateMockData_window [of 1 sampleEnv] by auto
  have "data (snd (fetchData sampleEnv 1 (FetchThrows ''timeout'') liveState)) = Some mock"
    by (simp add: fetchData_failure [OF t m])
  moreover have "\<not> isMockData sampleData" by (simp add: sampleData_def)
  ultimately show ?thesis using im by (auto simp: liveState_def)
qed

text \<open>
  The cadence is not kept across the failure: installed again, the timer runs at 120
  seconds, and at 300 from the third consecutive error on.
\<close>

lemma failed_fetch_slows_cadence:
  assumes "1 \<le> hours" and "fetchTry outcome = Inl err"
  shows "syncInterval (setupAutoSync True now (snd (fetchData env hours outcome s)))
     = (if consecutiveErrors s + 1 \<ge> 3 then 300 else 120)"
proof -
  obtain mock where m: "generateMockData env hours = Inr mock"
    using generateMockData_window [OF assms(1), of env] by blast
  show ?thesis
    by (simp add: fetchData_failure [OF assms(2) m] setupAutoSync_def
        calculateOptimalInterval_def interval_consts)
qed

lemma handled_refetch_failure:
  assumes "1 \<le> hours" and "fetchTry fo = Inl err"
  shows "syncThingSpeak env hours True (SyncBody r) fo s =
     (Inr r,
      snd (fetchData env hours fo
             (if sync_success r then s\<lparr> consecutiveErrors := 0 \<rparr>
              else s\<lparr> consecutiveErrors := consecutiveErrors s + 1 \<rparr>)))"
proof -
  obtain mock where m: "generateMockData env hours = Inr mock"
    using generateMockData_window [OF assms(1), of env] by blast
  show ?thesis
    by (simp add: syncThingSpeak_def syncTry_def Let_def fetchData_failure [OF assms(2) m])
qed

text \<open>
  Claim C7, as amended.  For every answer of the sync call and of the fetch that follows
  it, \<open>syncThingSpeak\<close> fulfils its promise with a result and never rejects.  A thrown
  sync call (network error, body that is not JSON) gives a result with the success flag
  false and the message as error text, the error counter incremented and the warning
  recorded; so does a re-fetch that rejects.  Otherwise the result is the remote result
  as received, and the state is the one the re-fetch leaves: a failure of the re-fetch
  that \<open>fetchData\<close> handles itself (network error, status that is not ok, body
  without success, on a window of at least one hour) is not encoded in the result and
  shows in the state only.  The timer callback runs the same function: the state after a
  scheduled cycle is the state after \<open>syncThingSpeak\<close>, with \<open>syncInterval\<close> set
  again when the computed interval has changed.
\<close>

theorem syncThingSpeak_never_rejects:
  "(\<exists>r. fst (syncThingSpeak env hours refSet so fo s) = Inr r)
   \<and> (\<forall>msg. so = SyncThrows msg \<longrightarrow>
        syncThingSpeak env hours refSet so fo s =
          (Inr \<lparr> sync_success = False, sync_message = None, sync_error = Some msg \<rparr>,
           s\<lparr> consecutiveErrors := consecutiveErrors s + 1,
              error := Some (''Sync warning: '' @ msg) \<rparr>))
   \<and> (\<forall>r. so = SyncBody r \<and> \<not> refSet \<longrightarrow>
        syncThingSpeak env hours refSet so fo s =
          (Inr r, if sync_success r then s\<lparr> consecutiveErrors := 0 \<rparr>
                  else s\<lparr> consecutiveErrors := consecutiveErrors s + 1 \<rparr>))
   \<and> (\<forall>r s2. so = SyncBody r \<and> refSet
           \<and> fetchData env hours fo
                 (if sync_success r then s\<lparr> consecutiveErrors := 0 \<rparr>
                  else s\<lparr> consecutiveErrors := consecutiveErrors s + 1 \<rparr>) = (Inr (), s2) \<longrightarrow>
        syncThingSpeak env hours refSet so fo s = (Inr r, s2))
   \<and> (\<forall>r e s2. so = SyncBody r \<and> refSet
           \<and> fetchData env hours fo
                 (if sync_success r then s\<lparr> consecutiveErrors := 0 \<rparr>
                  else s\<lparr> consecutiveErrors := consecutiveErrors s + 1 \<rparr>) = (Inl e, s2) \<longrightarrow>
        syncThingSpeak env hours refSet so fo s =
          (Inr \<lparr> sync_success = False, sync_message = None, sync_error = Some (message e) \<rparr>,
           s2\<lparr> consecutiveErrors := consecutiveErrors s2 + 1,
               error := Some (''Sync warning: '' @ message e) \<rparr>))
   \<and> (\<forall>r err. so = SyncBody r \<and> refSet \<and> 1 \<le> hours \<and> fetchTry fo = Inl err \<longrightarrow>
        fst (syncThingSpeak env hours refSet so fo s) = Inr r
        \<and> consecutiveErrors (snd (syncThingSpeak env hours refSet so fo s))
            = (if sync_success r then 1 else consecutiveErrors s + 2)
        \<and> error (snd (syncThingSpeak env hours refSet so fo s)) = Some (message err)
        \<and> isUsingMockData (snd (syncThingSpeak env hours refSet so fo s)))
   \<and> autoSyncTick env hours refSet so fo now s =
       (if calculateOptimalInterval (snd (syncThingSpeak env hours refSet so fo s)) now
             \<noteq> syncInterval s
        then (snd (syncThingSpeak env hours refSet so fo s))
               \<lparr> syncInterval :=
                   calculateOptimalInterval (snd (syncThingSpeak env hours refSet so fo s)) now \<rparr>
        else snd (syncThingSpeak env hours refSet so fo s))"
proof -
  have a: "\<exists>r. fst (syncThingSpeak env hours refSet so fo s) = Inr r"
    by (cases "syncTry env hours refSet so fo s")
       (auto simp: syncThingSpeak_def split: sum.splits)
  have b: "\<forall>msg. so = SyncThrows msg \<longrightarrow>
        syncThingSpeak env hours refSet so fo s =
          (Inr \<lparr> sync_success = False, sync_message = None, sync_error = Some msg \<rparr>,
           s\<lparr> consecutiveErrors := consecutiveErrors s + 1,
              error := Some (''Sync warning: '' @ msg) \<rparr>)"
    by (simp add: syncThingSpeak_def syncTry_def)
  have c: "\<forall>r. so = SyncBody r \<and> \<not> refSet \<longrightarrow>
        syncThingSpeak env hours refSet so fo s =
          (Inr r, if sync_success r then s\<lparr> consecutiveErrors := 0 \<rparr>
                  else s\<lparr> consecutiveErrors := consecutiveErrors s + 1 \<rparr>)"
    by (simp add: syncThingSpeak_def syncTry_def Let_def)
  have d: "\<forall>r s2. so = SyncBody r \<and> refSet
           \<and> fetchData env hours fo
                 (if sync_success r then s\<lparr> consecutiveErrors := 0 \<rparr>
                  else s\<lparr> consecutiveErrors := consecutiveErrors s + 1 \<rparr>) = (Inr (), s2) \<longrightarrow>
        syncThingSpeak env hours refSet so fo s = (Inr r, s2)"
    by (auto simp: syncThingSpeak_def syncTry_def Let_def)
  have e: "\<forall>r e s2. so = SyncBody r \<and> refSet
           \<and> fetchData env hours fo
                 (if sync_success r then s\<lparr> consecutiveErrors := 0 \<rparr>
                  else s\<lparr> consecutiveErrors := consecutiveErrors s + 1 \<rparr>) = (Inl e, s2) \<longrightarrow>
        syncThingSpeak env hours refSet so fo s =
          (Inr \<lparr> sync_success = False, sync_message = None, sync_error = Some (message e) \<rparr>,
           s2\<lparr> consecutiveErrors := consecutiveErrors s2 + 1,
               error := Some (''Sync warning: '' @ message e) \<rparr>)"
    by (auto simp: syncThingSpeak_def syncTry_def Let_def)
  have f: "\<forall>r err. so = SyncBody r \<and> refSet \<and> 1 \<le> hours \<and> fetchTry fo = Inl err \<longrightarrow>
        fst (syncThingSpeak env hours refSet so fo s) = Inr r
        \<and> consecutiveErrors (snd (syncThingSpeak env hours refSet so fo s))
            = (if sync_success r then 1 else consecutiveErrors s + 2)
        \<and> error (snd (syncThingSpeak env hours refSet so fo s)) = Some (message err)
        \<and> isUsingMockData (snd (syncThingSpeak env hours refSet so fo s))"
  proof (intro allI impI, elim conjE)
    fix r err
    assume h: "so = SyncBody r" "refSet" "1 \<le> hours" "fetchTry fo = Inl err"
    obtain mock where m: "generateMockData env hours = Inr mock"
      using generateMockData_window [OF h(3), of env] by blast
    show "fst (syncThingSpeak env hours refSet so fo s) = Inr r
        \<and> consecutiveErrors (snd (syncThingSpeak env hours refSet so fo s))
            = (if sync_success r then 1 else consecutiveErrors s + 2)
        \<and> error (snd (syncThingSpeak env hours refSet so fo s)) = Some (message err)
        \<and> isUsingMockData (snd (syncThingSpeak env hours refSet so fo s))"
      using h(1,2)
      by (simp add: handled_refetch_failure [OF h(3,4)] fetchData_failure [OF h(4) m])
  qed
  have g: "autoSyncTick env hours refSet so fo now s =
       (if calculateOptimalInterval (snd (syncThingSpeak env hours refSet so fo s)) now
             \<noteq> syncInterval s
        then (snd (syncThingSpeak env hours refSet so fo s))
               \<lparr> syncInterval :=
                   calculateOptimalInterval (snd (syncThingSpeak env hours refSet so fo s)) now \<rparr>
        else snd (syncThingSpeak env hours refSet so fo s))"
    using a by (cases "syncThingSpeak env hours refSet so fo s")
      (auto simp: autoSyncTick_def setupAutoSync_def)
  show ?thesis using a b c d e f g by blast
qed

text \<open>A re-fetch that rejects (window of zero hours, status 500), and a sync call that throws.\<close>

theorem syncThingSpeak_never_rejects_witness:
  "fst (syncThingSpeak sampleEnv 0 True (SyncBody \<lparr> sync_success = True,
          sync_message = None, sync_error = None \<rparr>) (FetchStatus 500) liveState)
     = Inr \<lparr> sync_success = False, sync_message = None,
             sync_error = Some ''Cannot read properties of undefined'' \<rparr>
   \<and> syncThingSpeak sampleEnv 24 True (SyncThrows ''Failed to fetch'') (FetchStatus 500) liveState
     = (Inr \<lparr> sync_success = False, sync_message = None, sync_error = Some ''Failed to fetch'' \<rparr>,
        liveState\<lparr> consecutiveErrors := 1,
                  error := Some ''Sync warning: Failed to fetch'' \<rparr>)"
proof -
  have t: "fetchTry (FetchStatus 500) = Inl (Error ''HTTP error! status: 500'')"
    by (simp add: fetchTry_def digit_def)
  have m: "generateMockData sampleEnv 0 = Inl (TypeError ''Cannot read properties of undefined'')"
    by (simp add: generateMockData_cases mockChart_empty)
  have f: "fetchData sampleEnv 0 (FetchStatus 500) (liveState\<lparr> consecutiveErrors := 0 \<rparr>)
      = (Inl (TypeError ''Cannot read properties of undefined''),
         liveState\<lparr> consecutiveErrors := 0, error := Some ''HTTP error! status: 500'',
                   consecutiveErrors := 1, loading := False \<rparr>)"
    by (simp add: fetchData_rejects [OF t m] liveState_def)
  show ?thesis
    using syncThingSpeak_never_rejects [of sampleEnv 0 True "SyncBody \<lparr> sync_success = True,
          sync_message = None, sync_error = None \<rparr>" "FetchStatus 500" liveState 0]
      syncThingSpeak_never_rejects [of sampleEnv 24 True "SyncThrows ''Failed to fetch''"
          "FetchStatus 500" liveState 0] f
    by (simp add: liveState_def)
qed

text \<open>
  Against claim C7 as stated: the sync call succeeds, the re-fetch meets status 500 on
  a window of 24 hours; the result says success and carries no error text, while the
  state counts one error.
\<close>

theorem refetch_failure_not_encoded:
  "fst (syncThingSpeak sampleEnv 24 True (SyncBody \<lparr> sync_success = True,
          sync_message = None, sync_error = None \<rparr>) (FetchStatus 500) liveState)
     = Inr \<lparr> sync_success = True, sync_message = None, sync_error = None \<rparr>
   \<and> consecutiveErrors (snd (syncThingSpeak sampleEnv 24 True (SyncBody \<lparr> sync_success = True,
          sync_message = None, sync_error = None \<rparr>) (FetchStatus 500) liveState)) = 1
   \<and> error (snd (syncThingSpeak sampleEnv 24 True (SyncBody \<lparr> sync_success = True,
          sync_message = None, sync_error = None \<rparr>) (FetchStatus 500) liveState))
       = Some ''HTTP error! status: 500''"
proof -
  have h: "(1::int) \<le> 24" by simp
  have t: "fetchTry (FetchStatus 500) = Inl (Error ''HTTP error! status: 500'')"
    by (simp add: fetchTry_def digit_def)
  obtain mock where m: "generateMockData sampleEnv 24 = Inr mock"
    using generateMockData_window [OF h, of sampleEnv] by blast
  show ?thesis
    by (simp add: handled_refetch_failure [OF h t] fetchData_failure [OF t m])
qed

text \<open>
  Claim C2, as amended.  In every state the hook can reach, whatever the route or the
  network answered, every point of the chart history lies inside the bounds; so do the
  chart and the current values of \<open>generateMockData\<close>, and every reading that
  \<open>generateReading\<close> returns for draws in the unit interval (it returns one unless the
  date is invalid).  The current-values snapshot of a fetched response is stored as
  received.
\<close>

theorem chart_history_clamped:
  "(reachable hours s \<longrightarrow> list_all pointInBounds (chartOf s))
   \<and> (case generateMockData env window of
         Inl e \<Rightarrow> True
       | Inr d \<Rightarrow> currentInBounds (currentValues d) \<and> list_all pointInBounds (chartData d))
   \<and> (unitDraws (rnd env) \<longrightarrow>
        (case fst (generateReading env hoursAgo n) of
           Inl e \<Rightarrow> \<not> validTime (dateNow env - hoursAgo * 3600000)
         | Inr r \<Rightarrow> readingInBounds r))"
proof -
  have a: "reachable hours s \<longrightarrow> list_all pointInBounds (chartOf s)"
    using reachable_chart_inBounds by blast
  have b: "case generateMockData env window of
         Inl e \<Rightarrow> True
       | Inr d \<Rightarrow> currentInBounds (currentValues d) \<and> list_all pointInBounds (chartData d)"
  proof (cases "generateMockData env window")
    case (Inl e)
    then show ?thesis by simp
  next
    case (Inr d)
    then show ?thesis
      using generateMockData_Inr [OF Inr] mockChart_inBounds [of env window] by simp
  qed
  have c: "unitDraws (rnd env) \<longrightarrow>
        (case fst (generateReading env hoursAgo n) of
           Inl e \<Rightarrow> \<not> validTime (dateNow env - hoursAgo * 3600000)
         | Inr r \<Rightarrow> readingInBounds r)"
    using generateReading_returns_inBounds by blast
  show ?thesis using a b c by blast
qed

text \<open>The state after one real reading, and the generator at the sample environment.\<close>

theorem chart_history_clamped_witness:
  "reachable 24 liveState \<and> list_all pointInBounds (chartOf liveState)
   \<and> unitDraws (rnd sampleEnv) \<and> \<not> isl (fst (generateReading sampleEnv 0 0))
   \<and> readingInBounds (projr (fst (generateReading sampleEnv 0 0)))"
proof -
  have u: "unitDraws (rnd sampleEnv)" by (simp add: sampleEnv_def unitDraws_def)
  have v: "validTime (dateNow sampleEnv - 0 * 3600000)" by (simp add: sampleEnv_def validTime_def)
  show ?thesis
    using chart_history_clamped [of 24 liveState sampleEnv 24 0 0] liveState_reachable u
      generateReading_valid [OF v, of 0]
    by simp
qed

section \<open>The route\<close>

lemma andThen_Inr [simp]: "andThen (Inr x, n) f = f x n"
  by (simp add: andThen_def)

lemma andThen_Inl [simp]: "andThen (Inl e, n) f = (Inl e, n)"
  by (simp add: andThen_def)

lemma orGenerated_Inr:
  assumes "validTime (dateNow env)"
  shows "\<exists>x n'. orGenerated env v sel n = (Inr x, n')
           \<and> (jsOrNull v 0 \<noteq> 0 \<longrightarrow> x = jsOrNull v 0)"
proof -
  have "validTime (dateNow env - 0 * 3600000)" using assms by simp
  then have g: "generateReading env 0 n = (Inr (fst (makeReading env 0 n)), n + 5)"
    by (rule generateReading_valid)
  show ?thesis
    by (cases v) (simp_all add: orGenerated_def jsOrNull_def jsOr_def g)
qed

lemma routeResponse_ok:
  assumes "validTime (dateNow env)"
  shows "\<exists>r n'. routeResponse env realData rs n = (Inr r, n')
     \<and> success r \<and> errorText r = None \<and> details r = None
     \<and> readings (sensorData r) = rs
     \<and> chartData (sensorData r) = map toChartPoint (rev rs)
     \<and> totalReadings (sensorData r) = length rs
     \<and> isMockData (sensorData r) = (\<not> realData \<and> rs \<noteq> [])
     \<and> dataSource r = (if realData then Thingspeak else if rs = [] then NoSource else Generated)
     \<and> (jsOrNull (latestField rs field5) 0 \<noteq> 0 \<longrightarrow>
          cv_temperature (currentValues (sensorData r)) = jsOrNull (latestField rs field5) 0)"
proof -
  obtain small n1 where o1:
    "orGenerated env (latestField rs field1) smallDustParticles n = (Inr small, n1)"
    using orGenerated_Inr [OF assms] by blast
  obtain large n2 where o2:
    "orGenerated env (latestField rs field2) largeParticles n1 = (Inr large, n2)"
    using orGenerated_Inr [OF assms] by blast
  obtain hum n3 where o3:
    "orGenerated env (latestField rs field4) humidity n2 = (Inr hum, n3)"
    using orGenerated_Inr [OF assms] by blast
  obtain temp n4 where o4:
    "orGenerated env (latestField rs field5) temperature n3 = (Inr temp, n4)"
    and t: "jsOrNull (latestField rs field5) 0 \<noteq> 0 \<longrightarrow> temp = jsOrNull (latestField rs field5) 0"
    using orGenerated_Inr [OF assms] by blast
  show ?thesis
    using t by (simp add: routeResponse_def o1 o2 o3 o4 Let_def)
qed





lemma GET_body_ok:
  assumes "routeReadings env hours primary secondary = (Inr rs, n)"
    and "validTime (dateNow env)"
  shows "\<exists>r. GET env limit hours primary secondary = Inr r
     \<and> success r \<and> errorText r = None \<and> details r = None
     \<and> readings (sensorData r) = rs
     \<and> chartData (sensorData r) = map toChartPoint (rev rs)
     \<and> totalReadings (sensorData r) = length rs
     \<and> isMockData (sensorData r) = (\<not> hasRealData primary \<and> rs \<noteq> [])
     \<and> dataSource r = (if hasRealData primary then Thingspeak
                       else if rs = [] then NoSource else Generated)
     \<and> (jsOrNull (latestField rs field5) 0 \<noteq> 0 \<longrightarrow>
          cv_temperature (currentValues (sensorData r)) = jsOrNull (latestField rs field5) 0)"
proof -
  obtain r n' where r: "routeResponse env (hasRealData primary) rs n = (Inr r, n')"
    and props: "success r \<and> errorText r = None \<and> details r = None
     \<and> readings (sensorData r) = rs
     \<and> chartData (sensorData r) = map toChartPoint (rev rs)
     \<and> totalReadings (sensorData r) = length rs
     \<and> isMockData (sensorData r) = (\<not> hasRealData primary \<and> rs \<noteq> [])
     \<and> dataSource r = (if hasRealData primary then Thingspeak
                       else if rs = [] then NoSource else Generated)
     \<and> (jsOrNull (latestField rs field5) 0 \<noteq> 0 \<longrightarrow>
          cv_temperature (currentValues (sensorData r)) = jsOrNull (latestField rs field5) 0)"
    using routeResponse_ok [OF assms(2), of "hasRealData primary" rs n] by blast
  have "GET env limit hours primary secondary = Inr r"
    by (simp add: GET_def assms(1) r)
  then show ?thesis using props by blast
qed










text \<open>
  Against claim C2 as stated: a feed that reports 45 degrees reaches the consumer in the
  current-values snapshot, outside the bounds.
\<close>

theorem fetched_snapshot_unclamped:
  "\<not> exposedInBounds (snd (fetchData sampleEnv 24
        (httpAnswer (GET sampleEnv 100 24 (PrimaryOk (Some (FeedArray [Some hotFeed])))
           (SecondaryData (Some []))))
        initialState))"
proof -
  have v: "validTime (dateNow sampleEnv)" by (simp add: sampleEnv_def validTime_def)
  have rr: "routeReadings sampleEnv 24 (PrimaryOk (Some (FeedArray [Some hotFeed])))
      (SecondaryData (Some [])) = (Inr [feedToReading 0 hotFeed], 0)"
    by (simp add: routeReadings_def Let_def hasRealData_def mapFeeds_def enumerate_eq_zip)
  have t: "jsOrNull (latestField [feedToReading 0 hotFeed] field5) 0 = 45"
    by (simp add: latestField_def feedToReading_def hotFeed_def jsOrNull_def jsOr_def)
  obtain r where r: "GET sampleEnv 100 24 (PrimaryOk (Some (FeedArray [Some hotFeed])))
      (SecondaryData (Some [])) = Inr r"
    and s: "success r" and c: "cv_temperature (currentValues (sensorData r)) = 45"
    using GET_body_ok [OF rr v, of 100] t by auto
  have ft: "fetchTry (FetchBody r) = Inr r" using s by (simp add: fetchTry_def)
  show ?thesis
    using c
    by (simp add: r httpAnswer_def fetchData_success [OF ft] exposedInBounds_def
        currentInBounds_def inBounds_def)
qed

end
